theory Spec2Isabelle
  imports Complex_Main
begin

section \<open>Flump movie layers: frame resolution\<close>

text \<open>
  A shallow embedding of the class \<open>FlumpMovieLayer\<close>: its constructor, \<open>setFrame\<close> and
  \<open>draw\<close>. JavaScript numbers are modelled as real numbers, so arithmetic is exact and
  there is neither NaN nor an infinity; a division by zero has the value 0 of HOL.
  Keyframe indices and durations are integers.
\<close>

subsection \<open>Data\<close>

text \<open>
  The members of the enumeration \<open>DisplayType\<close> that the sources name. The enumeration
  itself is declared outside the sources.
\<close>

datatype DisplayType = UNKNOWN | STAGE | DISPLAYOBJECT | TEXTURE

text \<open>
  The value of a keyframe's \<open>ref\<close>: \<open>null\<close>, the number \<open>-1\<close>, or the name of a symbol.
  Names are assumed not to be numeric strings, which JavaScript's loose comparison
  would identify with numbers.
\<close>

datatype SymbolRef = RefNull | RefMinusOne | RefName string

text \<open>
  Modelled from the spec: the class \<open>FlumpKeyframeData\<close> is not among the sources. The
  fields are those of the spec's data model, which are also the ones \<open>FlumpMovieLayer\<close>
  reads. The fields \<open>x\<close>, \<open>y\<close>, \<open>alpha\<close>, \<open>visible\<close>, \<open>label\<close> and \<open>ref\<close> carry the
  prefix \<open>kf_\<close>.
\<close>

record FlumpKeyframeData =
  index :: int
  duration :: int
  tweened :: bool
  ease :: real
  kf_x :: real
  kf_y :: real
  scaleX :: real
  scaleY :: real
  skewX :: real
  skewY :: real
  pivotX :: real
  pivotY :: real
  kf_alpha :: real
  kf_visible :: bool
  kf_label :: "string option"
  kf_ref :: SymbolRef

text \<open>
  Modelled from the spec: the class \<open>FlumpLayerData\<close> is not among the sources. It holds
  a name and the ordered sequence of keyframes.
\<close>

record FlumpLayerData =
  ld_name :: string
  flumpKeyframeDatas :: "FlumpKeyframeData list"

text \<open>
  Modelled from the spec: \<open>FlumpLayerData.getKeyframeForFrame\<close> is not among the sources.
  It returns the keyframe whose span \<open>[index, index + duration)\<close> contains the frame; the
  last keyframe is held for every frame that no span contains; there is no keyframe
  only when the layer has none.
\<close>

fun getKeyframeForFrame :: "FlumpKeyframeData list \<Rightarrow> int \<Rightarrow> FlumpKeyframeData option" where
  "getKeyframeForFrame [] frame = None"
| "getKeyframeForFrame [k] frame = Some k"
| "getKeyframeForFrame (k # k' # ks) frame =
     (if index k \<le> frame \<and> frame < index k + duration k then Some k
      else getKeyframeForFrame (k' # ks) frame)"

text \<open>
  Modelled from the spec: \<open>FlumpLayerData.getKeyframeAfter\<close> is not among the sources. It
  returns the next keyframe in sequence order, or none when the keyframe is the last.
  The keyframe is found by comparing values; the indices of a layer increase strictly,
  so that a value occurs once.
\<close>

fun getKeyframeAfter :: "FlumpKeyframeData list \<Rightarrow> FlumpKeyframeData \<Rightarrow> FlumpKeyframeData option" where
  "getKeyframeAfter [] kf = None"
| "getKeyframeAfter [k] kf = None"
| "getKeyframeAfter (k # k' # ks) kf =
     (if k = kf then Some k' else getKeyframeAfter (k' # ks) kf)"

text \<open>
  Modelled from the spec: the classes \<open>FlumpMovie\<close> and \<open>FlumpTexture\<close> are not among the
  sources. A nested movie has its own playback cursor, and its \<open>reset\<close> sets the frame
  to 0; its layers are left out. A texture is a static image without a cursor, and its
  \<open>reset\<close> changes nothing. The type tag of a movie is \<open>DISPLAYOBJECT\<close>, the one of a
  texture is \<open>TEXTURE\<close>.
\<close>

record FlumpMovie =
  mv_name :: string
  mv_frame :: real

record FlumpTexture =
  tex_name :: string

datatype FlumpSymbol = Movie FlumpMovie | Texture FlumpTexture

fun symbol_type :: "FlumpSymbol \<Rightarrow> DisplayType" where
  "symbol_type (Movie m) = DISPLAYOBJECT"
| "symbol_type (Texture t) = TEXTURE"

fun symbol_reset :: "FlumpSymbol \<Rightarrow> FlumpSymbol" where
  "symbol_reset (Movie m) = Movie (m\<lparr>mv_frame := 0\<rparr>)"
| "symbol_reset (Texture t) = Texture t"

text \<open>
  The class \<open>FlumpMtx\<close> is declared outside the sources; the layer makes one of six
  numbers and assigns the fields \<open>a\<close>, \<open>b\<close>, \<open>c\<close>, \<open>d\<close>, \<open>tx\<close> and \<open>ty\<close>.
\<close>

record FlumpMtx =
  mtx_a :: real
  mtx_b :: real
  mtx_c :: real
  mtx_d :: real
  mtx_tx :: real
  mtx_ty :: real

text \<open>
  The state of a layer. The map \<open>symbols\<close> holds the own properties of the object
  \<open>_symbols\<close>. Every child object that a layer reaches is such a property, and
  \<open>_symbolMovie\<close> and \<open>_symbolTexture\<close> are references to such objects: a reference is
  the key under which the object is cached, and \<open>None\<close> is \<open>undefined\<close>. The fields
  \<open>_keyframeRef\<close> and \<open>_symbolType\<close> are \<open>None\<close> while they are \<open>undefined\<close>.
\<close>

record FlumpMovieLayer =
  layer_name :: string
  flumpLayerData :: FlumpLayerData
  symbolType :: "DisplayType option"
  symbolMovie :: "string option"
  symbolTexture :: "string option"
  keyframeRef :: "SymbolRef option"
  symbols :: "string \<rightharpoonup> FlumpSymbol"
  storedMtx :: FlumpMtx
  alpha :: real
  visible :: bool

datatype error = TypeError | UnknownSymbolReference

text \<open>
  \<open>_symbols\<close> is a plain object, so it inherits the members of \<open>Object.prototype\<close>:
  these are their names in ECMAScript 2015 with its annex B.
\<close>

definition objectPrototypeNames :: "string list" where
  "objectPrototypeNames =
     [''constructor'', ''hasOwnProperty'', ''isPrototypeOf'', ''propertyIsEnumerable'',
      ''toLocaleString'', ''toString'', ''valueOf'', ''__proto__'',
      ''__defineGetter__'', ''__defineSetter__'', ''__lookupGetter__'', ''__lookupSetter__'']"

text \<open>
  \<open>keyframe.ref in this._symbols\<close>: the name is an own property or an inherited one.
\<close>

definition symbols_has :: "(string \<rightharpoonup> FlumpSymbol) \<Rightarrow> string \<Rightarrow> bool" where
  "symbols_has syms s =
     (case syms s of Some symbol \<Rightarrow> True | None \<Rightarrow> s \<in> set objectPrototypeNames)"

text \<open>
  \<open>this._symbols[keyframe.ref]\<close>: the own property, else the inherited member, which is
  no symbol, else \<open>undefined\<close>, which is \<open>None\<close>.
\<close>

datatype Member = Own FlumpSymbol | Inherited

definition symbols_get :: "(string \<rightharpoonup> FlumpSymbol) \<Rightarrow> string \<Rightarrow> Member option" where
  "symbols_get syms s =
     (case syms s of
        Some symbol \<Rightarrow> Some (Own symbol)
      | None \<Rightarrow> (if s \<in> set objectPrototypeNames then Some Inherited else None))"

text \<open>\<open>symbol.type\<close>: an inherited member has no such field, and the value is \<open>undefined\<close>.\<close>

fun member_type :: "Member \<Rightarrow> DisplayType option" where
  "member_type (Own symbol) = Some (symbol_type symbol)"
| "member_type Inherited = None"

subsection \<open>setFrame\<close>

text \<open>
  \<open>frame | 0\<close>: the number is truncated towards zero and reduced modulo \<open>2 ^ 32\<close> into
  the signed 32-bit range.
\<close>

definition toInt32 :: "real \<Rightarrow> int" where
  "toInt32 r =
     (let n = (if r < 0 then \<lceil>r\<rceil> else \<lfloor>r\<rfloor>)
      in (n + 2 ^ 31) mod 2 ^ 32 - 2 ^ 31)"

text \<open>The local variables of \<open>setFrame\<close> that the matrix is built from.\<close>

record Resolved =
  r_x :: real
  r_y :: real
  r_scaleX :: real
  r_scaleY :: real
  r_skewX :: real
  r_skewY :: real
  r_alpha :: real

definition rawValues :: "FlumpKeyframeData \<Rightarrow> Resolved" where
  "rawValues keyframe =
     \<lparr>r_x = kf_x keyframe, r_y = kf_y keyframe,
      r_scaleX = scaleX keyframe, r_scaleY = scaleY keyframe,
      r_skewX = skewX keyframe, r_skewY = skewY keyframe,
      r_alpha = kf_alpha keyframe\<rparr>"

text \<open>The progress \<open>interped\<close> after easing (lines 99 to 116).\<close>

definition easedProgress :: "FlumpKeyframeData \<Rightarrow> real \<Rightarrow> real" where
  "easedProgress keyframe frame =
     (let interped = (frame - real_of_int (index keyframe)) / real_of_int (duration keyframe);
          e = ease keyframe
      in if e \<noteq> 0
         then (if e < 0
               then (let inv = 1 - interped; t = 1 - inv * inv; e' = 0 - e
                     in e' * t + (1 - e') * interped)
               else (let t = interped * interped
                     in e * t + (1 - e) * interped))
         else interped)"

definition interpolate :: "FlumpKeyframeData \<Rightarrow> FlumpKeyframeData \<Rightarrow> real \<Rightarrow> Resolved" where
  "interpolate keyframe nextKeyframe interped =
     \<lparr>r_x = kf_x keyframe + (kf_x nextKeyframe - kf_x keyframe) * interped,
      r_y = kf_y keyframe + (kf_y nextKeyframe - kf_y keyframe) * interped,
      r_scaleX = scaleX keyframe + (scaleX nextKeyframe - scaleX keyframe) * interped,
      r_scaleY = scaleY keyframe + (scaleY nextKeyframe - scaleY keyframe) * interped,
      r_skewX = skewX keyframe + (skewX nextKeyframe - skewX keyframe) * interped,
      r_skewY = skewY keyframe + (skewY nextKeyframe - skewY keyframe) * interped,
      r_alpha = kf_alpha keyframe + (kf_alpha nextKeyframe - kf_alpha keyframe) * interped\<rparr>"

text \<open>The values after the tweening step (lines 78 to 126).\<close>

definition tween :: "FlumpKeyframeData \<Rightarrow> FlumpKeyframeData option \<Rightarrow> real \<Rightarrow> Resolved" where
  "tween keyframe nextKeyframe frame =
     (if index keyframe \<noteq> toInt32 frame \<and> tweened keyframe
      then (case nextKeyframe of
              Some nk \<Rightarrow> interpolate keyframe nk (easedProgress keyframe frame)
            | None \<Rightarrow> rawValues keyframe)
      else rawValues keyframe)"

text \<open>The matrix (lines 128 to 146); the pivot is the one of the keyframe.\<close>

definition composeMtx :: "Resolved \<Rightarrow> real \<Rightarrow> real \<Rightarrow> FlumpMtx" where
  "composeMtx v pivX pivY =
     (let sinX = (if r_skewX v \<noteq> 0 then sin (r_skewX v) else 0);
          cosX = (if r_skewX v \<noteq> 0 then cos (r_skewX v) else 1);
          sinY = (if r_skewY v \<noteq> 0 then sin (r_skewY v) else 0);
          cosY = (if r_skewY v \<noteq> 0 then cos (r_skewY v) else 1);
          a = r_scaleX v * cosY;
          b = r_scaleX v * sinY;
          c = - r_scaleY v * sinX;
          d = r_scaleY v * cosX
      in \<lparr>mtx_a = a, mtx_b = b, mtx_c = c, mtx_d = d,
          mtx_tx = r_x v - (pivX * a + pivY * c),
          mtx_ty = r_y v - (pivX * b + pivY * d)\<rparr>)"

text \<open>
  The symbol of the keyframe (lines 152 to 178). Reading the type of \<open>undefined\<close>, when
  the name is neither cached nor inherited, raises a TypeError. The type of an
  inherited member is \<open>undefined\<close>, which is neither of the two kinds.
\<close>

definition resolveSymbol :: "FlumpMovieLayer \<Rightarrow> SymbolRef \<Rightarrow> error + FlumpMovieLayer" where
  "resolveSymbol l r =
     (case r of
        RefName s \<Rightarrow>
          (if keyframeRef l \<noteq> Some (RefName s)
           then (case symbols_get (symbols l) s of
                   None \<Rightarrow> Inl TypeError
                 | Some member \<Rightarrow>
                     (let l1 = l\<lparr>keyframeRef := Some (RefName s),
                                 symbolType := member_type member\<rparr>
                      in case member of
                           Own symbol \<Rightarrow>
                             (if symbol_type symbol = DISPLAYOBJECT
                              then Inr (l1\<lparr>symbolMovie := Some s,
                                           symbols := (symbols l1)(s \<mapsto> symbol_reset symbol)\<rparr>)
                              else if symbol_type symbol = TEXTURE
                              then Inr (l1\<lparr>symbolTexture := Some s,
                                           symbols := (symbols l1)(s \<mapsto> symbol_reset symbol)\<rparr>)
                              else Inr l1)
                         | Inherited \<Rightarrow> Inr l1))
           else Inr l)
      | _ \<Rightarrow> Inr (l\<lparr>keyframeRef := Some RefNull, symbolType := Some UNKNOWN\<rparr>))"

definition setFrame :: "FlumpMovieLayer \<Rightarrow> real \<Rightarrow> error + FlumpMovieLayer" where
  "setFrame l frame =
     (case getKeyframeForFrame (flumpKeyframeDatas (flumpLayerData l)) (toInt32 frame) of
        None \<Rightarrow> Inr (l\<lparr>symbolType := Some UNKNOWN\<rparr>)
      | Some keyframe \<Rightarrow>
          (let nextKeyframe = getKeyframeAfter (flumpKeyframeDatas (flumpLayerData l)) keyframe;
               v = tween keyframe nextKeyframe frame
           in resolveSymbol
                (l\<lparr>storedMtx := composeMtx v (pivotX keyframe) (pivotY keyframe),
                   alpha := r_alpha v,
                   visible := kf_visible keyframe\<rparr>)
                (kf_ref keyframe)))"

text \<open>A sequence of calls; the first failure ends it.\<close>

fun setFrames :: "FlumpMovieLayer \<Rightarrow> real list \<Rightarrow> error + FlumpMovieLayer" where
  "setFrames l [] = Inr l"
| "setFrames l (frame # frames) =
     (case setFrame l frame of Inl e \<Rightarrow> Inl e | Inr l' \<Rightarrow> setFrames l' frames)"

subsection \<open>The constructor\<close>

text \<open>
  Modelled from the spec: the class \<open>FlumpLabelData\<close> and the labels of the parent movie
  are not among the sources. The labels are a mapping from a label name to the label
  data, which the constructor makes of the label, the index and the duration of a
  keyframe.
\<close>

record FlumpLabelData =
  lbl_label :: string
  lbl_index :: int
  lbl_duration :: int

text \<open>
  Modelled from the spec: \<open>FlumpLibrary.createSymbol\<close> is not among the sources. The
  library maps a symbol name to the instance that the factory makes for it, and a name
  that it does not hold is an error.
\<close>

definition createSymbol :: "(string \<rightharpoonup> FlumpSymbol) \<Rightarrow> string \<Rightarrow> error + FlumpSymbol" where
  "createSymbol library s =
     (case library s of None \<Rightarrow> Inl UnknownSymbolReference | Some symbol \<Rightarrow> Inr symbol)"

text \<open>\<open>if(keyframe.label)\<close>: the label is neither absent nor the empty string.\<close>

fun labelled :: "string option \<Rightarrow> bool" where
  "labelled None = False"
| "labelled (Some s) = (s \<noteq> [])"

text \<open>
  The loop of the constructor (lines 39 to 53) over the labels of the parent movie and
  the cache \<open>_symbols\<close>. The list \<open>created\<close> records the calls of \<open>createSymbol\<close>, latest
  first.
\<close>

fun cacheSymbols ::
  "(string \<rightharpoonup> FlumpSymbol) \<Rightarrow> FlumpKeyframeData list \<Rightarrow>
   (string \<rightharpoonup> FlumpLabelData) \<Rightarrow> (string \<rightharpoonup> FlumpSymbol) \<Rightarrow> string list \<Rightarrow>
   error + ((string \<rightharpoonup> FlumpLabelData) \<times> (string \<rightharpoonup> FlumpSymbol) \<times> string list)" where
  "cacheSymbols library [] labels syms created = Inr (labels, syms, created)"
| "cacheSymbols library (keyframe # rest) labels syms created =
     (let labels' =
            (if labelled (kf_label keyframe)
             then labels(the (kf_label keyframe) \<mapsto>
                    \<lparr>lbl_label = the (kf_label keyframe), lbl_index = index keyframe,
                     lbl_duration = duration keyframe\<rparr>)
             else labels)
      in case kf_ref keyframe of
           RefName s \<Rightarrow>
             (if symbols_has syms s
              then cacheSymbols library rest labels' syms created
              else (case createSymbol library s of
                      Inl e \<Rightarrow> Inl e
                    | Inr symbol \<Rightarrow>
                        cacheSymbols library rest labels' (syms(s \<mapsto> symbol)) (s # created)))
         | _ \<Rightarrow> cacheSymbols library rest labels' syms created)"

text \<open>
  The constructor. The class \<open>DisplayObject\<close> is not among the sources, so the opacity
  and the visibility that a layer inherits from it are arguments. The result is the
  layer, the labels of the parent movie and the names of the symbols created.
\<close>

definition newFlumpMovieLayer ::
  "(string \<rightharpoonup> FlumpSymbol) \<Rightarrow> (string \<rightharpoonup> FlumpLabelData) \<Rightarrow> FlumpLayerData \<Rightarrow>
   real \<Rightarrow> bool \<Rightarrow>
   error + (FlumpMovieLayer \<times> (string \<rightharpoonup> FlumpLabelData) \<times> string list)" where
  "newFlumpMovieLayer library labels ld alpha0 visible0 =
     (case cacheSymbols library (flumpKeyframeDatas ld) labels Map.empty [] of
        Inl e \<Rightarrow> Inl e
      | Inr (labels', syms, created) \<Rightarrow>
          (case setFrame
                  \<lparr>layer_name = ld_name ld, flumpLayerData = ld, symbolType = Some UNKNOWN,
                   symbolMovie = None, symbolTexture = None, keyframeRef = None,
                   symbols = syms,
                   storedMtx = \<lparr>mtx_a = 1, mtx_b = 0, mtx_c = 0, mtx_d = 1,
                                mtx_tx = 0, mtx_ty = 0\<rparr>,
                   alpha = alpha0, visible = visible0\<rparr> 0 of
             Inl e \<Rightarrow> Inl e
           | Inr l \<Rightarrow> Inr (l, labels', rev created)))"

subsection \<open>draw\<close>

text \<open>
  The child that \<open>draw\<close> and \<open>onTick\<close> address: the movie when the kind is
  \<open>DISPLAYOBJECT\<close>, the texture when it is \<open>TEXTURE\<close>, and no child otherwise.
\<close>

definition activeChild :: "FlumpMovieLayer \<Rightarrow> string option" where
  "activeChild l =
     (if symbolType l = Some DISPLAYOBJECT then symbolMovie l
      else if symbolType l = Some TEXTURE then symbolTexture l
      else None)"

text \<open>
  \<open>draw\<close> (lines 188 to 200). The drawing of a child is not among the sources: it is the
  argument \<open>childDraw\<close>, a function of the child and the drawing context. A call on a
  reference that is \<open>undefined\<close> raises a TypeError.
\<close>

definition callDraw ::
  "(FlumpSymbol \<Rightarrow> 'ctx \<Rightarrow> 'ctx) \<Rightarrow> FlumpMovieLayer \<Rightarrow> string option \<Rightarrow> 'ctx \<Rightarrow> error + 'ctx" where
  "callDraw childDraw l reference ctx =
     (case reference of
        None \<Rightarrow> Inl TypeError
      | Some s \<Rightarrow>
          (case symbols l s of
             None \<Rightarrow> Inl TypeError
           | Some symbol \<Rightarrow> Inr (childDraw symbol ctx)))"

definition draw ::
  "(FlumpSymbol \<Rightarrow> 'ctx \<Rightarrow> 'ctx) \<Rightarrow> FlumpMovieLayer \<Rightarrow> 'ctx \<Rightarrow> error + ('ctx \<times> bool)" where
  "draw childDraw l ctx =
     (if symbolType l = Some DISPLAYOBJECT
      then (case callDraw childDraw l (symbolMovie l) ctx of
              Inl e \<Rightarrow> Inl e
            | Inr ctx' \<Rightarrow> Inr (ctx', True))
      else if symbolType l = Some TEXTURE
      then (case callDraw childDraw l (symbolTexture l) ctx of
              Inl e \<Rightarrow> Inl e
            | Inr ctx' \<Rightarrow> Inr (ctx', True))
      else Inr (ctx, True))"

subsection \<open>Notions of the specification\<close>

text \<open>
  The easing as the specification words it, from the raw progress \<open>t_raw\<close> and the ease
  of the keyframe.
\<close>

definition easeBlend :: "real \<Rightarrow> real \<Rightarrow> real" where
  "easeBlend e t_raw =
     (if e = 0 then t_raw
      else if e < 0 then (- e) * (1 - (1 - t_raw) * (1 - t_raw)) + (1 - (- e)) * t_raw
      else e * (t_raw * t_raw) + (1 - e) * t_raw)"

text \<open>Validated data: the library holds every symbol that a keyframe names.\<close>

fun refKnown :: "(string \<rightharpoonup> FlumpSymbol) \<Rightarrow> SymbolRef \<Rightarrow> bool" where
  "refKnown syms (RefName s) = (syms s \<noteq> None)"
| "refKnown syms r = True"

definition refsKnown :: "(string \<rightharpoonup> FlumpSymbol) \<Rightarrow> FlumpKeyframeData list \<Rightarrow> bool" where
  "refsKnown syms kfs = list_all (\<lambda>k. refKnown syms (kf_ref k)) kfs"

text \<open>The cache answers for every symbol that a keyframe names.\<close>

fun refCached :: "(string \<rightharpoonup> FlumpSymbol) \<Rightarrow> SymbolRef \<Rightarrow> bool" where
  "refCached syms (RefName s) = symbols_has syms s"
| "refCached syms r = True"

definition refsCached :: "(string \<rightharpoonup> FlumpSymbol) \<Rightarrow> FlumpKeyframeData list \<Rightarrow> bool" where
  "refsCached syms kfs = list_all (\<lambda>k. refCached syms (kf_ref k)) kfs"

text \<open>The names of the symbols that the keyframes refer to.\<close>

fun refNames :: "FlumpKeyframeData list \<Rightarrow> string set" where
  "refNames [] = {}"
| "refNames (k # ks) =
     (case kf_ref k of RefName s \<Rightarrow> insert s (refNames ks) | _ \<Rightarrow> refNames ks)"

text \<open>Two keyframes that differ at most in their pivot.\<close>

definition pivotVariant :: "FlumpKeyframeData \<Rightarrow> FlumpKeyframeData \<Rightarrow> bool" where
  "pivotVariant k1 k2 = (k2 = k1\<lparr>pivotX := pivotX k2, pivotY := pivotY k2\<rparr>)"

subsection \<open>The layers of the scenarios\<close>

text \<open>A keyframe at the index 0 that shows nothing and leaves the transform as it is.\<close>

definition keyframe0 :: FlumpKeyframeData where
  "keyframe0 =
     \<lparr>index = 0, duration = 0, tweened = False, ease = 0, kf_x = 0, kf_y = 0,
      scaleX = 1, scaleY = 1, skewX = 0, skewY = 0, pivotX = 0, pivotY = 0,
      kf_alpha = 1, kf_visible = True, kf_label = None, kf_ref = RefNull\<rparr>"

text \<open>
  The tween scenario: \<open>{index 0, x 0, tweened, duration 10, ease 0}\<close> and
  \<open>{index 10, x 100}\<close>.
\<close>

definition tweenFrom :: FlumpKeyframeData where
  "tweenFrom = keyframe0\<lparr>duration := 10, tweened := True\<rparr>"

definition tweenTo :: FlumpKeyframeData where
  "tweenTo = keyframe0\<lparr>index := 10, kf_x := 100\<rparr>"

definition tweenLayerData :: FlumpLayerData where
  "tweenLayerData = \<lparr>ld_name = ''layer'', flumpKeyframeDatas = [tweenFrom, tweenTo]\<rparr>"

text \<open>The same with an ease of -1/2, and with pivots.\<close>

definition easeOutLayerData :: FlumpLayerData where
  "easeOutLayerData =
     \<lparr>ld_name = ''layer'', flumpKeyframeDatas = [tweenFrom\<lparr>ease := - (1 / 2)\<rparr>, tweenTo]\<rparr>"

definition pivotLayerData :: FlumpLayerData where
  "pivotLayerData =
     \<lparr>ld_name = ''layer'',
      flumpKeyframeDatas = [tweenFrom\<lparr>pivotX := 3, pivotY := 4\<rparr>, tweenTo\<lparr>pivotX := 5\<rparr>]\<rparr>"

text \<open>A single keyframe with scales, skews and a pivot.\<close>

definition skewFrame :: FlumpKeyframeData where
  "skewFrame = keyframe0\<lparr>kf_x := 7, kf_y := 11, scaleX := 3, scaleY := 5, skewX := 1, skewY := 2,
      pivotX := 13, pivotY := 17, kf_alpha := 1 / 2, kf_visible := False\<rparr>"

definition skewLayerData :: FlumpLayerData where
  "skewLayerData = \<lparr>ld_name = ''layer'', flumpKeyframeDatas = [skewFrame]\<rparr>"

text \<open>A layer without keyframes.\<close>

definition emptyLayerData :: FlumpLayerData where
  "emptyLayerData = \<lparr>ld_name = ''layer'', flumpKeyframeDatas = []\<rparr>"

text \<open>
  A layer in the state of the field initialisers, before the constructor runs, with an
  empty cache.
\<close>

definition blankLayer :: "FlumpLayerData \<Rightarrow> FlumpMovieLayer" where
  "blankLayer ld =
     \<lparr>layer_name = ld_name ld, flumpLayerData = ld, symbolType = Some UNKNOWN,
      symbolMovie = None, symbolTexture = None, keyframeRef = None,
      symbols = Map.empty,
      storedMtx = \<lparr>mtx_a = 1, mtx_b = 0, mtx_c = 0, mtx_d = 1, mtx_tx = 0, mtx_ty = 0\<rparr>,
      alpha = 1, visible = True\<rparr>"

text \<open>
  The symbol scenario: the ref \<open>ball\<close> at the index 0 and \<open>null\<close> at the index 5, a
  library whose \<open>ball\<close> is a movie at its frame 7, and the layer that the constructor
  makes of them.
\<close>

definition ballFrom :: FlumpKeyframeData where
  "ballFrom = keyframe0\<lparr>duration := 5, kf_ref := RefName ''ball''\<rparr>"

definition ballTo :: FlumpKeyframeData where
  "ballTo = keyframe0\<lparr>index := 5\<rparr>"

definition ballLayerData :: FlumpLayerData where
  "ballLayerData = \<lparr>ld_name = ''layer'', flumpKeyframeDatas = [ballFrom, ballTo]\<rparr>"

definition ballLibrary :: "string \<rightharpoonup> FlumpSymbol" where
  "ballLibrary = [''ball'' \<mapsto> Movie \<lparr>mv_name = ''ball'', mv_frame = 7\<rparr>]"

definition ballLayer :: FlumpMovieLayer where
  "ballLayer =
     (blankLayer ballLayerData)\<lparr>symbolType := Some DISPLAYOBJECT, symbolMovie := Some ''ball'',
        keyframeRef := Some (RefName ''ball''),
        symbols := [''ball'' \<mapsto> Movie \<lparr>mv_name = ''ball'', mv_frame = 0\<rparr>]\<rparr>"

text \<open>
  The same scenario with a symbol that is called \<open>toString\<close>, and the layer that the
  constructor makes of it.
\<close>

definition toStringFrom :: FlumpKeyframeData where
  "toStringFrom = keyframe0\<lparr>duration := 5, kf_ref := RefName ''toString''\<rparr>"

definition toStringLayerData :: FlumpLayerData where
  "toStringLayerData = \<lparr>ld_name = ''layer'', flumpKeyframeDatas = [toStringFrom, ballTo]\<rparr>"

definition toStringLibrary :: "string \<rightharpoonup> FlumpSymbol" where
  "toStringLibrary = [''toString'' \<mapsto> Movie \<lparr>mv_name = ''toString'', mv_frame = 7\<rparr>]"

definition toStringLayer :: FlumpMovieLayer where
  "toStringLayer =
     (blankLayer toStringLayerData)\<lparr>symbolType := None,
        keyframeRef := Some (RefName ''toString'')\<rparr>"

section \<open>Properties\<close>

subsection \<open>Auxiliary facts\<close>

lemmas scenario_defs = tweenLayerData_def tweenFrom_def tweenTo_def keyframe0_def blankLayer_def
  ballFrom_def ballTo_def ballLayerData_def ballLibrary_def emptyLayerData_def
  skewFrame_def skewLayerData_def easeOutLayerData_def pivotLayerData_def ballLayer_def
  toStringFrom_def toStringLayerData_def toStringLibrary_def toStringLayer_def

lemmas setFrame_defs = setFrame_def Let_def tween_def easedProgress_def interpolate_def
  composeMtx_def resolveSymbol_def rawValues_def symbols_get_def objectPrototypeNames_def

lemma toInt32_small: "0 \<le> r \<Longrightarrow> r < 2147483648 \<Longrightarrow> toInt32 r = \<lfloor>r\<rfloor>"
proof -
  assume a: "0 \<le> r" "r < 2147483648"
  then have "0 \<le> \<lfloor>r\<rfloor>" "\<lfloor>r\<rfloor> < 2147483648"
    by (simp_all add: floor_less_iff)
  then show ?thesis
    using a by (simp add: toInt32_def Let_def)
qed

lemma toInt32_of_int:
  "- 2147483648 \<le> i \<Longrightarrow> i < 2147483648 \<Longrightarrow> toInt32 (real_of_int i) = i"
  by (simp add: toInt32_def Let_def)

lemma resolveSymbol_frame:
  assumes "resolveSymbol l r = Inr l'"
  shows "storedMtx l' = storedMtx l" and "alpha l' = alpha l" and "visible l' = visible l"
    and "flumpLayerData l' = flumpLayerData l" and "dom (symbols l') = dom (symbols l)"
  using assms
  by (auto simp: resolveSymbol_def symbols_get_def Let_def
      split: SymbolRef.splits if_splits option.splits Member.splits)

lemma resolveSymbol_idem:
  assumes "resolveSymbol l r = Inr l'"
  shows "resolveSymbol l' r = Inr l'"
  using assms
  by (auto simp: resolveSymbol_def symbols_get_def Let_def
      split: SymbolRef.splits if_splits option.splits Member.splits)

lemma setFrame_Some:
  assumes "getKeyframeForFrame (flumpKeyframeDatas (flumpLayerData l)) (toInt32 frame) = Some kf"
  shows "setFrame l frame =
     resolveSymbol
       (l\<lparr>storedMtx :=
            composeMtx (tween kf (getKeyframeAfter (flumpKeyframeDatas (flumpLayerData l)) kf) frame)
              (pivotX kf) (pivotY kf),
          alpha := r_alpha (tween kf (getKeyframeAfter (flumpKeyframeDatas (flumpLayerData l)) kf) frame),
          visible := kf_visible kf\<rparr>)
       (kf_ref kf)"
  using assms by (simp add: setFrame_def Let_def)

lemma setFrame_None:
  assumes "getKeyframeForFrame (flumpKeyframeDatas (flumpLayerData l)) (toInt32 frame) = None"
  shows "setFrame l frame = Inr (l\<lparr>symbolType := Some UNKNOWN\<rparr>)"
  using assms by (simp add: setFrame_def)

lemma setFrame_transform:
  assumes "getKeyframeForFrame (flumpKeyframeDatas (flumpLayerData l)) (toInt32 frame) = Some kf"
    and "setFrame l frame = Inr l'"
  shows "storedMtx l' =
           composeMtx (tween kf (getKeyframeAfter (flumpKeyframeDatas (flumpLayerData l)) kf) frame)
             (pivotX kf) (pivotY kf)"
    and "alpha l' = r_alpha (tween kf (getKeyframeAfter (flumpKeyframeDatas (flumpLayerData l)) kf) frame)"
    and "visible l' = kf_visible kf"
    and "flumpLayerData l' = flumpLayerData l"
    and "dom (symbols l') = dom (symbols l)"
  using assms(2) resolveSymbol_frame [of _ "kf_ref kf" l']
  unfolding setFrame_Some [OF assms(1)] by simp_all

lemma setFrame_layerData:
  assumes "setFrame l frame = Inr l'"
  shows "flumpLayerData l' = flumpLayerData l \<and> dom (symbols l') = dom (symbols l)"
proof (cases "getKeyframeForFrame (flumpKeyframeDatas (flumpLayerData l)) (toInt32 frame)")
  case None
  with assms show ?thesis
    by (auto simp: setFrame_None)
next
  case (Some kf)
  then show ?thesis
    using assms setFrame_transform(4,5) by blast
qed

lemma setFrame_idem:
  assumes "setFrame l f = Inr l'"
  shows "setFrame l' f = Inr l'"
proof (cases "getKeyframeForFrame (flumpKeyframeDatas (flumpLayerData l)) (toInt32 f)")
  case None
  with assms have l': "l' = l\<lparr>symbolType := Some UNKNOWN\<rparr>"
    by (simp add: setFrame_None)
  with None show ?thesis
    by (simp add: setFrame_def)
next
  case (Some kf)
  let ?v = "tween kf (getKeyframeAfter (flumpKeyframeDatas (flumpLayerData l)) kf) f"
  let ?l0 = "l\<lparr>storedMtx := composeMtx ?v (pivotX kf) (pivotY kf),
                alpha := r_alpha ?v, visible := kf_visible kf\<rparr>"
  from assms have r: "resolveSymbol ?l0 (kf_ref kf) = Inr l'"
    by (simp add: setFrame_Some [OF Some])
  note fr = setFrame_transform [OF Some assms]
  have same: "l'\<lparr>storedMtx := composeMtx ?v (pivotX kf) (pivotY kf),
                 alpha := r_alpha ?v, visible := kf_visible kf\<rparr> = l'"
    using fr(1,2,3) by simp
  have Some': "getKeyframeForFrame (flumpKeyframeDatas (flumpLayerData l')) (toInt32 f) = Some kf"
    using Some fr(4) by simp
  have "setFrame l' f = resolveSymbol l' (kf_ref kf)"
    unfolding setFrame_Some [OF Some'] using same fr(4) by simp
  then show ?thesis
    using resolveSymbol_idem [OF r] by simp
qed

subsection \<open>Idempotence\<close>

text \<open>
  Claim C6. Two calls of \<open>setFrame\<close> in a row with the same frame end as one call does,
  whatever the frame and the state of the layer: when the first call returns, the
  second one returns the very same state, so that the cached transform, the opacity,
  the visibility, the reference to the active child and its kind are those of the
  first call; when the first call raises, there is no second one.
\<close>

theorem setFrame_idempotent:
  "setFrames l [frame, frame] = setFrames l [frame] \<and>
   (\<forall>l1. setFrame l frame = Inr l1 \<longrightarrow>
      (\<exists>l2. setFrame l1 frame = Inr l2 \<and> storedMtx l2 = storedMtx l1 \<and> alpha l2 = alpha l1 \<and>
            visible l2 = visible l1 \<and> activeChild l2 = activeChild l1 \<and>
            symbolType l2 = symbolType l1 \<and> l2 = l1))"
proof
  show "setFrames l [frame, frame] = setFrames l [frame]"
    by (cases "setFrame l frame") (simp_all add: setFrame_idem)
  show "\<forall>l1. setFrame l frame = Inr l1 \<longrightarrow>
      (\<exists>l2. setFrame l1 frame = Inr l2 \<and> storedMtx l2 = storedMtx l1 \<and> alpha l2 = alpha l1 \<and>
            visible l2 = visible l1 \<and> activeChild l2 = activeChild l1 \<and>
            symbolType l2 = symbolType l1 \<and> l2 = l1)"
    using setFrame_idem by blast
qed

theorem setFrame_idempotent_witness:
  "setFrame (blankLayer tweenLayerData) 5 =
     Inr ((blankLayer tweenLayerData)\<lparr>keyframeRef := Some RefNull,
        storedMtx := \<lparr>mtx_a = 1, mtx_b = 0, mtx_c = 0, mtx_d = 1, mtx_tx = 50, mtx_ty = 0\<rparr>\<rparr>) \<and>
   setFrame ((blankLayer tweenLayerData)\<lparr>keyframeRef := Some RefNull,
        storedMtx := \<lparr>mtx_a = 1, mtx_b = 0, mtx_c = 0, mtx_d = 1, mtx_tx = 50, mtx_ty = 0\<rparr>\<rparr>) 5 =
     Inr ((blankLayer tweenLayerData)\<lparr>keyframeRef := Some RefNull,
        storedMtx := \<lparr>mtx_a = 1, mtx_b = 0, mtx_c = 0, mtx_d = 1, mtx_tx = 50, mtx_ty = 0\<rparr>\<rparr>)"
proof -
  have first: "setFrame (blankLayer tweenLayerData) 5 =
     Inr ((blankLayer tweenLayerData)\<lparr>keyframeRef := Some RefNull,
        storedMtx := \<lparr>mtx_a = 1, mtx_b = 0, mtx_c = 0, mtx_d = 1, mtx_tx = 50, mtx_ty = 0\<rparr>\<rparr>)"
    by (simp add: setFrame_defs scenario_defs toInt32_small)
  from setFrame_idempotent [of "blankLayer tweenLayerData" 5] first
  show ?thesis by auto
qed

subsection \<open>A frame without a keyframe\<close>

text \<open>
  Claim C10. When the lookup returns no keyframe, \<open>setFrame\<close> changes the kind of the
  active symbol to \<open>UNKNOWN\<close> and nothing else: the cached transform, the opacity, the
  visibility, the cached children, the references to the movie and the texture and the
  active ref keep the values they had before the call.
\<close>

theorem setFrame_without_keyframe:
  assumes "getKeyframeForFrame (flumpKeyframeDatas (flumpLayerData l)) (toInt32 frame) = None"
  shows "setFrame l frame = Inr (l\<lparr>symbolType := Some UNKNOWN\<rparr>) \<and>
         (\<forall>l'. setFrame l frame = Inr l' \<longrightarrow>
            symbolType l' = Some UNKNOWN \<and> storedMtx l' = storedMtx l \<and> alpha l' = alpha l \<and>
            visible l' = visible l \<and> symbols l' = symbols l \<and> symbolMovie l' = symbolMovie l \<and>
            symbolTexture l' = symbolTexture l \<and> keyframeRef l' = keyframeRef l \<and>
            flumpLayerData l' = flumpLayerData l)"
  using assms by (simp add: setFrame_None)

text \<open>
  A layer without keyframes that shows a movie keeps everything but the kind.
\<close>

theorem setFrame_without_keyframe_witness:
  "getKeyframeForFrame (flumpKeyframeDatas (flumpLayerData
       ((blankLayer emptyLayerData)\<lparr>symbolType := Some DISPLAYOBJECT, symbolMovie := Some ''ball'',
          keyframeRef := Some (RefName ''ball''), symbols := ballLibrary, alpha := 1 / 2\<rparr>)))
     (toInt32 3) = None \<and>
   setFrame ((blankLayer emptyLayerData)\<lparr>symbolType := Some DISPLAYOBJECT, symbolMovie := Some ''ball'',
          keyframeRef := Some (RefName ''ball''), symbols := ballLibrary, alpha := 1 / 2\<rparr>) 3 =
     Inr ((blankLayer emptyLayerData)\<lparr>symbolType := Some UNKNOWN, symbolMovie := Some ''ball'',
          keyframeRef := Some (RefName ''ball''), symbols := ballLibrary, alpha := 1 / 2\<rparr>)"
proof -
  have h: "getKeyframeForFrame (flumpKeyframeDatas (flumpLayerData
       ((blankLayer emptyLayerData)\<lparr>symbolType := Some DISPLAYOBJECT, symbolMovie := Some ''ball'',
          keyframeRef := Some (RefName ''ball''), symbols := ballLibrary, alpha := 1 / 2\<rparr>)))
     (toInt32 3) = None"
    by (simp add: scenario_defs)
  from setFrame_without_keyframe [OF h] h show ?thesis
    by (simp add: scenario_defs)
qed

subsection \<open>The cached transform\<close>

lemma composeMtx_entries:
  "mtx_a (composeMtx v p q) = r_scaleX v * cos (r_skewY v)"
  "mtx_b (composeMtx v p q) = r_scaleX v * sin (r_skewY v)"
  "mtx_c (composeMtx v p q) = - r_scaleY v * sin (r_skewX v)"
  "mtx_d (composeMtx v p q) = r_scaleY v * cos (r_skewX v)"
  "mtx_tx (composeMtx v p q) =
     r_x v - (p * mtx_a (composeMtx v p q) + q * mtx_c (composeMtx v p q))"
  "mtx_ty (composeMtx v p q) =
     r_y v - (p * mtx_b (composeMtx v p q) + q * mtx_d (composeMtx v p q))"
  by (simp_all add: composeMtx_def Let_def)

text \<open>
  Claim C3. When \<open>setFrame\<close> resolves a frame to the keyframe \<open>kf\<close> and to the values
  \<open>v\<close>, interpolated or not, the cached transform is \<open>a = scaleX * cos skewY\<close>,
  \<open>b = scaleX * sin skewY\<close>, \<open>c = - scaleY * sin skewX\<close>, \<open>d = scaleY * cos skewX\<close>,
  \<open>tx = x - (pivotX * a + pivotY * c)\<close>, \<open>ty = y - (pivotX * b + pivotY * d)\<close>; sine 0
  and cosine 1 for a skew of 0 are the values of the functions. The opacity of the layer
  is the resolved \<open>alpha\<close>, and the visibility is the one of \<open>kf\<close>.
\<close>

theorem setFrame_matrix:
  assumes "getKeyframeForFrame (flumpKeyframeDatas (flumpLayerData l)) (toInt32 frame) = Some kf"
    and "setFrame l frame = Inr l'"
    and "v = tween kf (getKeyframeAfter (flumpKeyframeDatas (flumpLayerData l)) kf) frame"
  shows "mtx_a (storedMtx l') = r_scaleX v * cos (r_skewY v) \<and>
         mtx_b (storedMtx l') = r_scaleX v * sin (r_skewY v) \<and>
         mtx_c (storedMtx l') = - r_scaleY v * sin (r_skewX v) \<and>
         mtx_d (storedMtx l') = r_scaleY v * cos (r_skewX v) \<and>
         mtx_tx (storedMtx l') =
           r_x v - (pivotX kf * mtx_a (storedMtx l') + pivotY kf * mtx_c (storedMtx l')) \<and>
         mtx_ty (storedMtx l') =
           r_y v - (pivotX kf * mtx_b (storedMtx l') + pivotY kf * mtx_d (storedMtx l')) \<and>
         alpha l' = r_alpha v \<and> visible l' = kf_visible kf"
  unfolding setFrame_transform(1,2,3) [OF assms(1,2)] assms(3) composeMtx_entries
  by (simp add: composeMtx_entries)

text \<open>
  A single keyframe with skews 1 and 2, scales 3 and 5 and the pivot (13, 17).
\<close>

theorem setFrame_matrix_witness:
  "getKeyframeForFrame (flumpKeyframeDatas (flumpLayerData (blankLayer skewLayerData))) (toInt32 3) =
     Some skewFrame \<and>
   setFrame (blankLayer skewLayerData) 3 =
     Inr ((blankLayer skewLayerData)\<lparr>keyframeRef := Some RefNull,
        storedMtx := \<lparr>mtx_a = 3 * cos 2, mtx_b = 3 * sin 2, mtx_c = - (5 * sin 1), mtx_d = 5 * cos 1,
                       mtx_tx = 7 - (13 * (3 * cos 2) + 17 * - (5 * sin 1)),
                       mtx_ty = 11 - (13 * (3 * sin 2) + 17 * (5 * cos 1))\<rparr>,
        alpha := 1 / 2, visible := False\<rparr>) \<and>
   mtx_a (storedMtx ((blankLayer skewLayerData)\<lparr>keyframeRef := Some RefNull,
        storedMtx := \<lparr>mtx_a = 3 * cos 2, mtx_b = 3 * sin 2, mtx_c = - (5 * sin 1), mtx_d = 5 * cos 1,
                       mtx_tx = 7 - (13 * (3 * cos 2) + 17 * - (5 * sin 1)),
                       mtx_ty = 11 - (13 * (3 * sin 2) + 17 * (5 * cos 1))\<rparr>,
        alpha := 1 / 2, visible := False\<rparr>)) =
     r_scaleX (rawValues skewFrame) * cos (r_skewY (rawValues skewFrame))"
proof -
  have h1: "getKeyframeForFrame (flumpKeyframeDatas (flumpLayerData (blankLayer skewLayerData)))
      (toInt32 3) = Some skewFrame"
    by (simp add: scenario_defs)
  have h2: "setFrame (blankLayer skewLayerData) 3 =
     Inr ((blankLayer skewLayerData)\<lparr>keyframeRef := Some RefNull,
        storedMtx := \<lparr>mtx_a = 3 * cos 2, mtx_b = 3 * sin 2, mtx_c = - (5 * sin 1), mtx_d = 5 * cos 1,
                       mtx_tx = 7 - (13 * (3 * cos 2) + 17 * - (5 * sin 1)),
                       mtx_ty = 11 - (13 * (3 * sin 2) + 17 * (5 * cos 1))\<rparr>,
        alpha := 1 / 2, visible := False\<rparr>)"
    by (simp add: setFrame_defs scenario_defs toInt32_small)
  have h3: "rawValues skewFrame =
     tween skewFrame
       (getKeyframeAfter (flumpKeyframeDatas (flumpLayerData (blankLayer skewLayerData))) skewFrame) 3"
    by (simp add: tween_def scenario_defs)
  from setFrame_matrix [OF h1 h2 h3] h1 h2 show ?thesis
    by simp
qed

subsection \<open>Easing\<close>

lemma easedProgress_easeBlend:
  "easedProgress kf frame =
     easeBlend (ease kf) ((frame - real_of_int (index kf)) / real_of_int (duration kf))"
  by (simp add: easedProgress_def easeBlend_def Let_def)

text \<open>
  Claim C2 as stated fails at the frame 1/2 of the layer with an ease of -1/2: the frame
  differs from \<open>kf.index = 0\<close>, the keyframe is tweened and has a successor, the raw
  progress is 1/20 and the eased one 59/800, so that \<open>x\<close> would be 59/8; \<open>setFrame\<close>
  applies no easing and no tweening, since \<open>frame | 0\<close> is the index of the keyframe,
  and leaves \<open>x\<close> at 0.
\<close>

theorem easing_counterexample:
  "getKeyframeForFrame (flumpKeyframeDatas easeOutLayerData) (toInt32 (1 / 2)) =
     Some (tweenFrom\<lparr>ease := - (1 / 2)\<rparr>) \<and>
   getKeyframeAfter (flumpKeyframeDatas easeOutLayerData) (tweenFrom\<lparr>ease := - (1 / 2)\<rparr>) =
     Some tweenTo \<and>
   tweened (tweenFrom\<lparr>ease := - (1 / 2)\<rparr>) \<and>
   1 / 2 \<noteq> real_of_int (index (tweenFrom\<lparr>ease := - (1 / 2)\<rparr>)) \<and>
   (1 / 2 - real_of_int (index (tweenFrom\<lparr>ease := - (1 / 2)\<rparr>)))
     / real_of_int (duration (tweenFrom\<lparr>ease := - (1 / 2)\<rparr>)) = 1 / 20 \<and>
   easeBlend (ease (tweenFrom\<lparr>ease := - (1 / 2)\<rparr>)) (1 / 20) = 59 / 800 \<and>
   kf_x (tweenFrom\<lparr>ease := - (1 / 2)\<rparr>) +
     (kf_x tweenTo - kf_x (tweenFrom\<lparr>ease := - (1 / 2)\<rparr>)) * (59 / 800) = 59 / 8 \<and>
   r_x (tween (tweenFrom\<lparr>ease := - (1 / 2)\<rparr>) (Some tweenTo) (1 / 2)) = 0 \<and>
   setFrame (blankLayer easeOutLayerData) (1 / 2) =
     Inr ((blankLayer easeOutLayerData)\<lparr>keyframeRef := Some RefNull,
        storedMtx := \<lparr>mtx_a = 1, mtx_b = 0, mtx_c = 0, mtx_d = 1, mtx_tx = 0, mtx_ty = 0\<rparr>\<rparr>)"
  by (simp add: setFrame_defs scenario_defs toInt32_small easeBlend_def)

text \<open>
  Claim C2, amended. On a frame that \<open>setFrame\<close> tweens, that is when \<open>frame | 0\<close> differs
  from \<open>kf.index\<close>, \<open>kf.tweened\<close> is true and a next keyframe exists, with the raw
  progress \<open>t_raw = (frame - kf.index) / kf.duration\<close>, the progress \<open>t\<close> is \<open>t_raw\<close> for
  an ease of 0, the ease-out blend
  \<open>easeMag * (1 - (1 - t_raw) * (1 - t_raw)) + (1 - easeMag) * t_raw\<close> with
  \<open>easeMag = - kf.ease\<close> for a negative ease, and the ease-in blend
  \<open>kf.ease * (t_raw * t_raw) + (1 - kf.ease) * t_raw\<close> for a positive one. Each of x,
  y, scaleX, scaleY, skewX, skewY and alpha is then
  \<open>kf_value + (next_value - kf_value) * t\<close>.
\<close>

theorem setFrame_easing:
  assumes "getKeyframeForFrame (flumpKeyframeDatas (flumpLayerData l)) (toInt32 frame) = Some kf"
    and "getKeyframeAfter (flumpKeyframeDatas (flumpLayerData l)) kf = Some nk"
    and "index kf \<noteq> toInt32 frame" and "tweened kf"
    and "setFrame l frame = Inr l'"
    and "t_raw = (frame - real_of_int (index kf)) / real_of_int (duration kf)"
    and "t = easedProgress kf frame"
  shows "t = easeBlend (ease kf) t_raw \<and>
         (ease kf = 0 \<longrightarrow> t = t_raw) \<and>
         (ease kf < 0 \<longrightarrow>
            t = (- ease kf) * (1 - (1 - t_raw) * (1 - t_raw)) + (1 - (- ease kf)) * t_raw) \<and>
         (ease kf > 0 \<longrightarrow> t = ease kf * (t_raw * t_raw) + (1 - ease kf) * t_raw) \<and>
         tween kf (Some nk) frame =
           \<lparr>r_x = kf_x kf + (kf_x nk - kf_x kf) * t,
            r_y = kf_y kf + (kf_y nk - kf_y kf) * t,
            r_scaleX = scaleX kf + (scaleX nk - scaleX kf) * t,
            r_scaleY = scaleY kf + (scaleY nk - scaleY kf) * t,
            r_skewX = skewX kf + (skewX nk - skewX kf) * t,
            r_skewY = skewY kf + (skewY nk - skewY kf) * t,
            r_alpha = kf_alpha kf + (kf_alpha nk - kf_alpha kf) * t\<rparr> \<and>
         storedMtx l' =
           composeMtx
             \<lparr>r_x = kf_x kf + (kf_x nk - kf_x kf) * t,
              r_y = kf_y kf + (kf_y nk - kf_y kf) * t,
              r_scaleX = scaleX kf + (scaleX nk - scaleX kf) * t,
              r_scaleY = scaleY kf + (scaleY nk - scaleY kf) * t,
              r_skewX = skewX kf + (skewX nk - skewX kf) * t,
              r_skewY = skewY kf + (skewY nk - skewY kf) * t,
              r_alpha = kf_alpha kf + (kf_alpha nk - kf_alpha kf) * t\<rparr>
             (pivotX kf) (pivotY kf) \<and>
         alpha l' = kf_alpha kf + (kf_alpha nk - kf_alpha kf) * t"
proof -
  have e: "t = easeBlend (ease kf) t_raw"
    by (simp add: easedProgress_easeBlend assms(6,7))
  have cases:
    "(ease kf = 0 \<longrightarrow> t = t_raw) \<and>
     (ease kf < 0 \<longrightarrow>
        t = (- ease kf) * (1 - (1 - t_raw) * (1 - t_raw)) + (1 - (- ease kf)) * t_raw) \<and>
     (ease kf > 0 \<longrightarrow> t = ease kf * (t_raw * t_raw) + (1 - ease kf) * t_raw)"
    unfolding e by (simp add: easeBlend_def)
  have tw: "tween kf (Some nk) frame =
           \<lparr>r_x = kf_x kf + (kf_x nk - kf_x kf) * t,
            r_y = kf_y kf + (kf_y nk - kf_y kf) * t,
            r_scaleX = scaleX kf + (scaleX nk - scaleX kf) * t,
            r_scaleY = scaleY kf + (scaleY nk - scaleY kf) * t,
            r_skewX = skewX kf + (skewX nk - skewX kf) * t,
            r_skewY = skewY kf + (skewY nk - skewY kf) * t,
            r_alpha = kf_alpha kf + (kf_alpha nk - kf_alpha kf) * t\<rparr>"
    using assms(3,4) by (simp add: tween_def interpolate_def assms(7))
  have m: "storedMtx l' = composeMtx (tween kf (Some nk) frame) (pivotX kf) (pivotY kf)"
    using setFrame_transform(1) [OF assms(1,5)] assms(2) by simp
  have a: "alpha l' = r_alpha (tween kf (Some nk) frame)"
    using setFrame_transform(2) [OF assms(1,5)] assms(2) by simp
  from e cases tw m a show ?thesis
    by simp
qed

text \<open>
  An ease of -1/2 halfway through a span of 10 frames gives the progress 5/8.
\<close>

theorem setFrame_easing_witness:
  "getKeyframeForFrame (flumpKeyframeDatas (flumpLayerData (blankLayer easeOutLayerData))) (toInt32 5) =
     Some (tweenFrom\<lparr>ease := - (1 / 2)\<rparr>) \<and>
   getKeyframeAfter (flumpKeyframeDatas (flumpLayerData (blankLayer easeOutLayerData)))
     (tweenFrom\<lparr>ease := - (1 / 2)\<rparr>) = Some tweenTo \<and>
   index (tweenFrom\<lparr>ease := - (1 / 2)\<rparr>) \<noteq> toInt32 5 \<and>
   tweened (tweenFrom\<lparr>ease := - (1 / 2)\<rparr>) \<and>
   setFrame (blankLayer easeOutLayerData) 5 =
     Inr ((blankLayer easeOutLayerData)\<lparr>keyframeRef := Some RefNull,
        storedMtx := \<lparr>mtx_a = 1, mtx_b = 0, mtx_c = 0, mtx_d = 1, mtx_tx = 125 / 2, mtx_ty = 0\<rparr>\<rparr>) \<and>
   easedProgress (tweenFrom\<lparr>ease := - (1 / 2)\<rparr>) 5 = 5 / 8 \<and>
   r_x (tween (tweenFrom\<lparr>ease := - (1 / 2)\<rparr>) (Some tweenTo) 5) = 125 / 2"
proof -
  let ?kf = "tweenFrom\<lparr>ease := - (1 / 2)\<rparr>"
  have h1: "getKeyframeForFrame (flumpKeyframeDatas (flumpLayerData (blankLayer easeOutLayerData)))
      (toInt32 5) = Some ?kf"
    by (simp add: scenario_defs toInt32_small)
  have h2: "getKeyframeAfter (flumpKeyframeDatas (flumpLayerData (blankLayer easeOutLayerData))) ?kf =
      Some tweenTo"
    by (simp add: scenario_defs)
  have h3: "index ?kf \<noteq> toInt32 5"
    by (simp add: scenario_defs toInt32_small)
  have h4: "tweened ?kf"
    by (simp add: scenario_defs)
  have h5: "setFrame (blankLayer easeOutLayerData) 5 =
     Inr ((blankLayer easeOutLayerData)\<lparr>keyframeRef := Some RefNull,
        storedMtx := \<lparr>mtx_a = 1, mtx_b = 0, mtx_c = 0, mtx_d = 1, mtx_tx = 125 / 2, mtx_ty = 0\<rparr>\<rparr>)"
    by (simp add: setFrame_defs scenario_defs toInt32_small)
  have h6: "(1 / 2 :: real) = (5 - real_of_int (index ?kf)) / real_of_int (duration ?kf)"
    by (simp add: scenario_defs)
  note inst = setFrame_easing [OF h1 h2 h3 h4 h5 h6 refl]
  from inst have "ease ?kf < 0 \<longrightarrow>
      easedProgress ?kf 5 =
        (- ease ?kf) * (1 - (1 - 1 / 2) * (1 - 1 / 2)) + (1 - (- ease ?kf)) * (1 / 2)"
    by blast
  then have p: "easedProgress ?kf 5 = 5 / 8"
    by (simp add: scenario_defs)
  from inst have "r_x (tween ?kf (Some tweenTo) 5) =
      kf_x ?kf + (kf_x tweenTo - kf_x ?kf) * easedProgress ?kf 5"
    by simp
  then have x: "r_x (tween ?kf (Some tweenTo) 5) = 125 / 2"
    unfolding p by (simp add: scenario_defs)
  from h1 h2 h3 h4 h5 p x show ?thesis
    by simp
qed

subsection \<open>Linear tweening\<close>

text \<open>
  Claim C1 as stated fails at the frame 1/2 of its own scenario: the frame lies strictly
  between \<open>kf.index = 0\<close> and \<open>kf.index + kf.duration = 10\<close>, the linear interpolation
  of \<open>x\<close> is 5, and \<open>setFrame\<close> leaves \<open>x\<close> at 0, since \<open>frame | 0\<close> is the index of the
  keyframe.
\<close>

theorem linear_tween_counterexample:
  "getKeyframeForFrame (flumpKeyframeDatas tweenLayerData) (toInt32 (1 / 2)) = Some tweenFrom \<and>
   getKeyframeAfter (flumpKeyframeDatas tweenLayerData) tweenFrom = Some tweenTo \<and>
   tweened tweenFrom \<and> ease tweenFrom = 0 \<and>
   real_of_int (index tweenFrom) < 1 / 2 \<and>
   1 / 2 < real_of_int (index tweenFrom + duration tweenFrom) \<and>
   kf_x tweenFrom + (kf_x tweenTo - kf_x tweenFrom) * (1 / 2 - real_of_int (index tweenFrom))
     / real_of_int (duration tweenFrom) = 5 \<and>
   r_x (tween tweenFrom (Some tweenTo) (1 / 2)) = 0 \<and>
   setFrame (blankLayer tweenLayerData) (1 / 2) =
     Inr ((blankLayer tweenLayerData)\<lparr>keyframeRef := Some RefNull,
        storedMtx := \<lparr>mtx_a = 1, mtx_b = 0, mtx_c = 0, mtx_d = 1, mtx_tx = 0, mtx_ty = 0\<rparr>\<rparr>)"
  by (simp add: setFrame_defs scenario_defs toInt32_small)

text \<open>
  Claim C1, amended. For a layer whose current keyframe \<open>kf\<close> is tweened with ease 0
  and has a successor, \<open>setFrame\<close> on a frame whose integer part \<open>frame | 0\<close> is not
  \<open>kf.index\<close> sets each of x, y, scaleX, scaleY, skewX, skewY and alpha to
  \<open>kf_value + (next_value - kf_value) * (frame - kf.index) / kf.duration\<close>. In the layer
  with the keyframes \<open>{index 0, x 0, tweened, duration 10, ease 0}\<close> and
  \<open>{index 10, x 100}\<close>, the frame 5 yields \<open>x = 50\<close>, the frame 0 yields \<open>x = 0\<close> and the
  frame 9 yields \<open>x = 90\<close>.
\<close>

theorem setFrame_linear_tween:
  "(\<forall>l frame kf nk l'.
      getKeyframeForFrame (flumpKeyframeDatas (flumpLayerData l)) (toInt32 frame) = Some kf \<and>
      tweened kf \<and> ease kf = 0 \<and>
      getKeyframeAfter (flumpKeyframeDatas (flumpLayerData l)) kf = Some nk \<and>
      index kf \<noteq> toInt32 frame \<and> setFrame l frame = Inr l' \<longrightarrow>
      tween kf (Some nk) frame =
        \<lparr>r_x = kf_x kf + (kf_x nk - kf_x kf) * (frame - real_of_int (index kf))
                  / real_of_int (duration kf),
         r_y = kf_y kf + (kf_y nk - kf_y kf) * (frame - real_of_int (index kf))
                  / real_of_int (duration kf),
         r_scaleX = scaleX kf + (scaleX nk - scaleX kf) * (frame - real_of_int (index kf))
                  / real_of_int (duration kf),
         r_scaleY = scaleY kf + (scaleY nk - scaleY kf) * (frame - real_of_int (index kf))
                  / real_of_int (duration kf),
         r_skewX = skewX kf + (skewX nk - skewX kf) * (frame - real_of_int (index kf))
                  / real_of_int (duration kf),
         r_skewY = skewY kf + (skewY nk - skewY kf) * (frame - real_of_int (index kf))
                  / real_of_int (duration kf),
         r_alpha = kf_alpha kf + (kf_alpha nk - kf_alpha kf) * (frame - real_of_int (index kf))
                  / real_of_int (duration kf)\<rparr> \<and>
      storedMtx l' = composeMtx (tween kf (Some nk) frame) (pivotX kf) (pivotY kf) \<and>
      alpha l' = r_alpha (tween kf (Some nk) frame)) \<and>
   r_x (tween tweenFrom (getKeyframeAfter (flumpKeyframeDatas tweenLayerData) tweenFrom) 5) = 50 \<and>
   r_x (tween tweenFrom (getKeyframeAfter (flumpKeyframeDatas tweenLayerData) tweenFrom) 0) = 0 \<and>
   r_x (tween tweenFrom (getKeyframeAfter (flumpKeyframeDatas tweenLayerData) tweenFrom) 9) = 90 \<and>
   setFrame (blankLayer tweenLayerData) 5 =
     Inr ((blankLayer tweenLayerData)\<lparr>keyframeRef := Some RefNull,
        storedMtx := \<lparr>mtx_a = 1, mtx_b = 0, mtx_c = 0, mtx_d = 1, mtx_tx = 50, mtx_ty = 0\<rparr>\<rparr>) \<and>
   setFrame (blankLayer tweenLayerData) 0 =
     Inr ((blankLayer tweenLayerData)\<lparr>keyframeRef := Some RefNull,
        storedMtx := \<lparr>mtx_a = 1, mtx_b = 0, mtx_c = 0, mtx_d = 1, mtx_tx = 0, mtx_ty = 0\<rparr>\<rparr>) \<and>
   setFrame (blankLayer tweenLayerData) 9 =
     Inr ((blankLayer tweenLayerData)\<lparr>keyframeRef := Some RefNull,
        storedMtx := \<lparr>mtx_a = 1, mtx_b = 0, mtx_c = 0, mtx_d = 1, mtx_tx = 90, mtx_ty = 0\<rparr>\<rparr>)"
proof (intro conjI allI impI)
  fix l frame kf nk l'
  assume h: "getKeyframeForFrame (flumpKeyframeDatas (flumpLayerData l)) (toInt32 frame) = Some kf \<and>
      tweened kf \<and> ease kf = 0 \<and>
      getKeyframeAfter (flumpKeyframeDatas (flumpLayerData l)) kf = Some nk \<and>
      index kf \<noteq> toInt32 frame \<and> setFrame l frame = Inr l'"
  then show "tween kf (Some nk) frame =
        \<lparr>r_x = kf_x kf + (kf_x nk - kf_x kf) * (frame - real_of_int (index kf))
                  / real_of_int (duration kf),
         r_y = kf_y kf + (kf_y nk - kf_y kf) * (frame - real_of_int (index kf))
                  / real_of_int (duration kf),
         r_scaleX = scaleX kf + (scaleX nk - scaleX kf) * (frame - real_of_int (index kf))
                  / real_of_int (duration kf),
         r_scaleY = scaleY kf + (scaleY nk - scaleY kf) * (frame - real_of_int (index kf))
                  / real_of_int (duration kf),
         r_skewX = skewX kf + (skewX nk - skewX kf) * (frame - real_of_int (index kf))
                  / real_of_int (duration kf),
         r_skewY = skewY kf + (skewY nk - skewY kf) * (frame - real_of_int (index kf))
                  / real_of_int (duration kf),
         r_alpha = kf_alpha kf + (kf_alpha nk - kf_alpha kf) * (frame - real_of_int (index kf))
                  / real_of_int (duration kf)\<rparr>"
    by (simp add: tween_def easedProgress_def interpolate_def)
  from h show "storedMtx l' = composeMtx (tween kf (Some nk) frame) (pivotX kf) (pivotY kf)"
    using setFrame_transform(1) [of l frame kf l'] by simp
  from h show "alpha l' = r_alpha (tween kf (Some nk) frame)"
    using setFrame_transform(2) [of l frame kf l'] by simp
qed (simp_all add: setFrame_defs scenario_defs toInt32_small)

text \<open>
  The frame 5/2 of the scenario: \<open>x = 25\<close>.
\<close>

theorem setFrame_linear_tween_witness:
  "getKeyframeForFrame (flumpKeyframeDatas (flumpLayerData (blankLayer tweenLayerData)))
     (toInt32 (5 / 2)) = Some tweenFrom \<and>
   tweened tweenFrom \<and> ease tweenFrom = 0 \<and>
   getKeyframeAfter (flumpKeyframeDatas (flumpLayerData (blankLayer tweenLayerData))) tweenFrom =
     Some tweenTo \<and>
   index tweenFrom \<noteq> toInt32 (5 / 2) \<and>
   setFrame (blankLayer tweenLayerData) (5 / 2) =
     Inr ((blankLayer tweenLayerData)\<lparr>keyframeRef := Some RefNull,
        storedMtx := \<lparr>mtx_a = 1, mtx_b = 0, mtx_c = 0, mtx_d = 1, mtx_tx = 25, mtx_ty = 0\<rparr>\<rparr>) \<and>
   r_x (tween tweenFrom (Some tweenTo) (5 / 2)) = 25"
proof -
  have h: "getKeyframeForFrame (flumpKeyframeDatas (flumpLayerData (blankLayer tweenLayerData)))
     (toInt32 (5 / 2)) = Some tweenFrom \<and>
   tweened tweenFrom \<and> ease tweenFrom = 0 \<and>
   getKeyframeAfter (flumpKeyframeDatas (flumpLayerData (blankLayer tweenLayerData))) tweenFrom =
     Some tweenTo \<and>
   index tweenFrom \<noteq> toInt32 (5 / 2) \<and>
   setFrame (blankLayer tweenLayerData) (5 / 2) =
     Inr ((blankLayer tweenLayerData)\<lparr>keyframeRef := Some RefNull,
        storedMtx := \<lparr>mtx_a = 1, mtx_b = 0, mtx_c = 0, mtx_d = 1, mtx_tx = 25, mtx_ty = 0\<rparr>\<rparr>)"
    by (simp add: setFrame_defs scenario_defs toInt32_small)
  have "tween tweenFrom (Some tweenTo) (5 / 2) =
        \<lparr>r_x = kf_x tweenFrom + (kf_x tweenTo - kf_x tweenFrom) * (5 / 2 - real_of_int (index tweenFrom))
                  / real_of_int (duration tweenFrom),
         r_y = kf_y tweenFrom + (kf_y tweenTo - kf_y tweenFrom) * (5 / 2 - real_of_int (index tweenFrom))
                  / real_of_int (duration tweenFrom),
         r_scaleX = scaleX tweenFrom + (scaleX tweenTo - scaleX tweenFrom) * (5 / 2 - real_of_int (index tweenFrom))
                  / real_of_int (duration tweenFrom),
         r_scaleY = scaleY tweenFrom + (scaleY tweenTo - scaleY tweenFrom) * (5 / 2 - real_of_int (index tweenFrom))
                  / real_of_int (duration tweenFrom),
         r_skewX = skewX tweenFrom + (skewX tweenTo - skewX tweenFrom) * (5 / 2 - real_of_int (index tweenFrom))
                  / real_of_int (duration tweenFrom),
         r_skewY = skewY tweenFrom + (skewY tweenTo - skewY tweenFrom) * (5 / 2 - real_of_int (index tweenFrom))
                  / real_of_int (duration tweenFrom),
         r_alpha = kf_alpha tweenFrom + (kf_alpha tweenTo - kf_alpha tweenFrom) * (5 / 2 - real_of_int (index tweenFrom))
                  / real_of_int (duration tweenFrom)\<rparr>"
    using setFrame_linear_tween h by blast
  then have "r_x (tween tweenFrom (Some tweenTo) (5 / 2)) = 25"
    by (simp add: scenario_defs)
  with h show ?thesis by simp
qed

subsection \<open>The frames that are tweened\<close>

text \<open>
  Claim C4 as stated fails at the frame 3/4 of the tweened layer: the frame differs from
  \<open>kf.index = 0\<close>, the keyframe is tweened and has a successor, and yet \<open>setFrame\<close> uses
  the raw values of the keyframe (\<open>x = 0\<close>, where tweening gives 15/2).
\<close>

theorem tween_condition_counterexample:
  "getKeyframeForFrame (flumpKeyframeDatas tweenLayerData) (toInt32 (3 / 4)) = Some tweenFrom \<and>
   3 / 4 \<noteq> real_of_int (index tweenFrom) \<and> tweened tweenFrom \<and>
   getKeyframeAfter (flumpKeyframeDatas tweenLayerData) tweenFrom = Some tweenTo \<and>
   tween tweenFrom (Some tweenTo) (3 / 4) = rawValues tweenFrom \<and>
   r_x (rawValues tweenFrom) = 0 \<and>
   r_x (interpolate tweenFrom tweenTo (easedProgress tweenFrom (3 / 4))) = 15 / 2 \<and>
   setFrame (blankLayer tweenLayerData) (3 / 4) =
     Inr ((blankLayer tweenLayerData)\<lparr>keyframeRef := Some RefNull,
        storedMtx := \<lparr>mtx_a = 1, mtx_b = 0, mtx_c = 0, mtx_d = 1, mtx_tx = 0, mtx_ty = 0\<rparr>\<rparr>)"
  by (simp add: setFrame_defs scenario_defs toInt32_small)

text \<open>
  Claim C4, amended. A frame whose integer part \<open>frame | 0\<close> is the index of its keyframe
  gets the raw values of the keyframe, even when the keyframe is tweened and whatever
  the next keyframe holds; the frame \<open>kf.index\<close> itself is such a frame when the index
  is a signed 32-bit number. So does every frame of a keyframe that is not tweened.
  Tweening happens exactly when \<open>frame | 0\<close> differs from \<open>kf.index\<close>, \<open>kf.tweened\<close> is
  true and a next keyframe exists.
\<close>

theorem setFrame_tween_condition:
  assumes "getKeyframeForFrame (flumpKeyframeDatas (flumpLayerData l)) (toInt32 frame) = Some kf"
    and "nk = getKeyframeAfter (flumpKeyframeDatas (flumpLayerData l)) kf"
    and "setFrame l frame = Inr l'"
  shows "(toInt32 frame = index kf \<or> \<not> tweened kf \<longrightarrow>
            tween kf nk frame = rawValues kf \<and>
            storedMtx l' = composeMtx (rawValues kf) (pivotX kf) (pivotY kf) \<and>
            alpha l' = kf_alpha kf) \<and>
         (frame = real_of_int (index kf) \<and> - 2147483648 \<le> index kf \<and> index kf < 2147483648 \<longrightarrow>
            toInt32 frame = index kf) \<and>
         tween kf nk frame =
           (if toInt32 frame \<noteq> index kf \<and> tweened kf \<and> nk \<noteq> None
            then interpolate kf (the nk) (easedProgress kf frame)
            else rawValues kf) \<and>
         storedMtx l' = composeMtx (tween kf nk frame) (pivotX kf) (pivotY kf) \<and>
         alpha l' = r_alpha (tween kf nk frame)"
proof -
  have m: "storedMtx l' = composeMtx (tween kf nk frame) (pivotX kf) (pivotY kf)"
    using setFrame_transform(1) [OF assms(1,3)] assms(2) by simp
  have a: "alpha l' = r_alpha (tween kf nk frame)"
    using setFrame_transform(2) [OF assms(1,3)] assms(2) by simp
  have t: "tween kf nk frame =
           (if toInt32 frame \<noteq> index kf \<and> tweened kf \<and> nk \<noteq> None
            then interpolate kf (the nk) (easedProgress kf frame)
            else rawValues kf)"
    by (auto simp: tween_def split: option.splits)
  have r: "toInt32 frame = index kf \<or> \<not> tweened kf \<longrightarrow>
            tween kf nk frame = rawValues kf \<and>
            storedMtx l' = composeMtx (rawValues kf) (pivotX kf) (pivotY kf) \<and>
            alpha l' = kf_alpha kf"
    using m a t by (auto simp: rawValues_def)
  have i: "frame = real_of_int (index kf) \<and> - 2147483648 \<le> index kf \<and> index kf < 2147483648 \<longrightarrow>
            toInt32 frame = index kf"
    using toInt32_of_int by blast
  from r i t m a show ?thesis by blast
qed

text \<open>
  The frame 0 of the tweened layer.
\<close>

theorem setFrame_tween_condition_witness:
  "getKeyframeForFrame (flumpKeyframeDatas (flumpLayerData (blankLayer tweenLayerData))) (toInt32 0) =
     Some tweenFrom \<and>
   Some tweenTo =
     getKeyframeAfter (flumpKeyframeDatas (flumpLayerData (blankLayer tweenLayerData))) tweenFrom \<and>
   setFrame (blankLayer tweenLayerData) 0 =
     Inr ((blankLayer tweenLayerData)\<lparr>keyframeRef := Some RefNull\<rparr>) \<and>
   toInt32 0 = index tweenFrom \<and> tweened tweenFrom \<and>
   tween tweenFrom (Some tweenTo) 0 = rawValues tweenFrom"
proof -
  have h1: "getKeyframeForFrame (flumpKeyframeDatas (flumpLayerData (blankLayer tweenLayerData)))
      (toInt32 0) = Some tweenFrom"
    by (simp add: scenario_defs toInt32_small)
  have h2: "Some tweenTo =
     getKeyframeAfter (flumpKeyframeDatas (flumpLayerData (blankLayer tweenLayerData))) tweenFrom"
    by (simp add: scenario_defs)
  have h3: "setFrame (blankLayer tweenLayerData) 0 =
     Inr ((blankLayer tweenLayerData)\<lparr>keyframeRef := Some RefNull\<rparr>)"
    by (simp add: setFrame_defs scenario_defs toInt32_small)
  have h4: "toInt32 0 = index tweenFrom" "tweened tweenFrom"
    by (simp_all add: scenario_defs toInt32_small)
  from setFrame_tween_condition [OF h1 h2 h3] h1 h2 h3 h4 show ?thesis
    by simp
qed

subsection \<open>Pivot\<close>

lemma pivotVariant_fields:
  assumes "pivotVariant k1 k2"
  shows "index k2 = index k1" and "duration k2 = duration k1" and "tweened k2 = tweened k1"
    and "ease k2 = ease k1" and "kf_x k2 = kf_x k1" and "kf_y k2 = kf_y k1"
    and "scaleX k2 = scaleX k1" and "scaleY k2 = scaleY k1" and "skewX k2 = skewX k1"
    and "skewY k2 = skewY k1" and "kf_alpha k2 = kf_alpha k1" and "kf_visible k2 = kf_visible k1"
    and "kf_ref k2 = kf_ref k1"
proof -
  from assms have e: "k2 = k1\<lparr>pivotX := pivotX k2, pivotY := pivotY k2\<rparr>"
    by (simp add: pivotVariant_def)
  show "index k2 = index k1" by (subst e) simp
  show "duration k2 = duration k1" by (subst e) simp
  show "tweened k2 = tweened k1" by (subst e) simp
  show "ease k2 = ease k1" by (subst e) simp
  show "kf_x k2 = kf_x k1" by (subst e) simp
  show "kf_y k2 = kf_y k1" by (subst e) simp
  show "scaleX k2 = scaleX k1" by (subst e) simp
  show "scaleY k2 = scaleY k1" by (subst e) simp
  show "skewX k2 = skewX k1" by (subst e) simp
  show "skewY k2 = skewY k1" by (subst e) simp
  show "kf_alpha k2 = kf_alpha k1" by (subst e) simp
  show "kf_visible k2 = kf_visible k1" by (subst e) simp
  show "kf_ref k2 = kf_ref k1" by (subst e) simp
qed

lemma getKeyframeForFrame_pivotVariant:
  assumes "list_all2 pivotVariant xs ys"
  shows "rel_option pivotVariant (getKeyframeForFrame xs n) (getKeyframeForFrame ys n)"
  using assms
proof (induction xs n arbitrary: ys rule: getKeyframeForFrame.induct)
  case (1 frame)
  then show ?case by simp
next
  case (2 k frame)
  then show ?case by (auto simp: list_all2_Cons1)
next
  case (3 k k' ks frame)
  from "3.prems" obtain y y' ys' where ys: "ys = y # y' # ys'" and p: "pivotVariant k y"
    and rest: "list_all2 pivotVariant (k' # ks) (y' # ys')"
    by (auto simp: list_all2_Cons1)
  show ?case
  proof (cases "index k \<le> frame \<and> frame < index k + duration k")
    case True
    then show ?thesis
      using p pivotVariant_fields(1,2) [OF p] by (simp add: ys)
  next
    case False
    then show ?thesis
      using "3.IH" [OF False rest] pivotVariant_fields(1,2) [OF p] by (auto simp: ys)
  qed
qed

lemma getKeyframeForFrame_mem:
  "getKeyframeForFrame xs n = Some k \<Longrightarrow> k \<in> set xs"
  by (induction xs n rule: getKeyframeForFrame.induct) (auto split: if_splits)

lemma getKeyframeAfter_pivotVariant:
  assumes "list_all2 pivotVariant xs ys"
    and "\<forall>x\<in>set xs. index x = index k1 \<longrightarrow> x = k1"
    and "\<forall>y\<in>set ys. index y = index k2 \<longrightarrow> y = k2"
    and "index k2 = index k1"
  shows "rel_option pivotVariant (getKeyframeAfter xs k1) (getKeyframeAfter ys k2)"
  using assms
proof (induction xs k1 arbitrary: ys rule: getKeyframeAfter.induct)
  case (1 kf)
  then show ?case by simp
next
  case (2 k kf)
  then show ?case by (auto simp: list_all2_Cons1)
next
  case (3 k k' ks kf)
  from "3.prems"(1) obtain y y' ys' where ys: "ys = y # y' # ys'" and p: "pivotVariant k y"
    and p': "pivotVariant k' y'"
    and rest: "list_all2 pivotVariant (k' # ks) (y' # ys')"
    by (auto simp: list_all2_Cons1)
  have iff: "k = kf \<longleftrightarrow> y = k2"
    using "3.prems"(2,3,4) pivotVariant_fields(1) [OF p] by (auto simp: ys)
  show ?case
  proof (cases "k = kf")
    case True
    then show ?thesis using iff p' by (simp add: ys)
  next
    case False
    have "rel_option pivotVariant (getKeyframeAfter (k' # ks) kf) (getKeyframeAfter (y' # ys') k2)"
      using "3.IH" [OF False rest] "3.prems"(2,3,4) by (simp add: ys)
    then show ?thesis using False iff by (simp add: ys)
  qed
qed

lemma distinct_index_unique:
  assumes "distinct (map index xs)" and "k \<in> set xs"
  shows "\<forall>x\<in>set xs. index x = index k \<longrightarrow> x = k"
  using assms by (meson distinct_map inj_onD)

lemma tween_pivotVariant:
  assumes "pivotVariant k1 k2" and "rel_option pivotVariant n1 n2"
  shows "tween k2 n2 frame = tween k1 n1 frame"
proof (cases n1)
  case None
  with assms(2) have "n2 = None" by (cases n2) simp_all
  with None show ?thesis
    using pivotVariant_fields [OF assms(1)] by (simp add: tween_def rawValues_def)
next
  case (Some a)
  with assms(2) obtain b where n2: "n2 = Some b" and ab: "pivotVariant a b"
    by (cases n2) simp_all
  show ?thesis
    using pivotVariant_fields [OF assms(1)] pivotVariant_fields [OF ab]
    by (simp add: tween_def rawValues_def Some n2 interpolate_def easedProgress_def)
qed

lemma resolveSymbol_other_fields:
  "resolveSymbol (l\<lparr>flumpLayerData := ld, storedMtx := m\<rparr>) r =
     map_sum id (\<lambda>l'. l'\<lparr>flumpLayerData := ld, storedMtx := m\<rparr>) (resolveSymbol l r)"
  by (auto simp: resolveSymbol_def Let_def split: SymbolRef.splits option.splits Member.splits)

lemma pivotVariant_indices:
  "list_all2 pivotVariant xs ys \<Longrightarrow> map index ys = map index xs"
  by (induction xs ys rule: list_all2_induct) (simp_all add: pivotVariant_fields(1))

lemma setFrame_pivotVariant:
  assumes "list_all2 pivotVariant (flumpKeyframeDatas (flumpLayerData l1)) kfs2"
    and "distinct (map index (flumpKeyframeDatas (flumpLayerData l1)))"
    and "l2 = l1\<lparr>flumpLayerData := (flumpLayerData l1)\<lparr>flumpKeyframeDatas := kfs2\<rparr>\<rparr>"
    and "getKeyframeForFrame (flumpKeyframeDatas (flumpLayerData l1)) (toInt32 frame) = Some kf1"
  shows "\<exists>kf2. pivotVariant kf1 kf2 \<and>
           setFrame l2 frame =
             map_sum id
               (\<lambda>l'. l'\<lparr>flumpLayerData := (flumpLayerData l1)\<lparr>flumpKeyframeDatas := kfs2\<rparr>,
                        storedMtx :=
                          composeMtx
                            (tween kf1 (getKeyframeAfter (flumpKeyframeDatas (flumpLayerData l1)) kf1) frame)
                            (pivotX kf2) (pivotY kf2)\<rparr>)
               (setFrame l1 frame)"
proof -
  let ?xs = "flumpKeyframeDatas (flumpLayerData l1)"
  let ?n1 = "getKeyframeAfter ?xs kf1"
  let ?v = "tween kf1 ?n1 frame"
  from getKeyframeForFrame_pivotVariant [OF assms(1), of "toInt32 frame"] assms(4)
  obtain kf2 where k2: "getKeyframeForFrame kfs2 (toInt32 frame) = Some kf2"
    and pv: "pivotVariant kf1 kf2"
    by (cases "getKeyframeForFrame kfs2 (toInt32 frame)") simp_all
  have u1: "\<forall>x\<in>set ?xs. index x = index kf1 \<longrightarrow> x = kf1"
    using distinct_index_unique [OF assms(2)] getKeyframeForFrame_mem [OF assms(4)] by blast
  have d2: "distinct (map index kfs2)"
    using assms(2) pivotVariant_indices [OF assms(1)] by simp
  have u2: "\<forall>y\<in>set kfs2. index y = index kf2 \<longrightarrow> y = kf2"
    using distinct_index_unique [OF d2] getKeyframeForFrame_mem [OF k2] by blast
  have nx: "rel_option pivotVariant ?n1 (getKeyframeAfter kfs2 kf2)"
    using getKeyframeAfter_pivotVariant [OF assms(1) u1 u2] pivotVariant_fields(1) [OF pv] by simp
  have tw: "tween kf2 (getKeyframeAfter kfs2 kf2) frame = ?v"
    using tween_pivotVariant [OF pv nx] .
  have k2': "getKeyframeForFrame (flumpKeyframeDatas (flumpLayerData l2)) (toInt32 frame) = Some kf2"
    using k2 by (simp add: assms(3))
  have "setFrame l2 frame =
     resolveSymbol
       ((l1\<lparr>storedMtx := composeMtx ?v (pivotX kf1) (pivotY kf1),
            alpha := r_alpha ?v, visible := kf_visible kf1\<rparr>)
          \<lparr>flumpLayerData := (flumpLayerData l1)\<lparr>flumpKeyframeDatas := kfs2\<rparr>,
           storedMtx := composeMtx ?v (pivotX kf2) (pivotY kf2)\<rparr>)
       (kf_ref kf1)"
    unfolding setFrame_Some [OF k2']
    using tw pivotVariant_fields(12,13) [OF pv] by (cases l1) (simp add: assms(3))
  also have "\<dots> =
     map_sum id
       (\<lambda>l'. l'\<lparr>flumpLayerData := (flumpLayerData l1)\<lparr>flumpKeyframeDatas := kfs2\<rparr>,
                storedMtx := composeMtx ?v (pivotX kf2) (pivotY kf2)\<rparr>)
       (setFrame l1 frame)"
    unfolding setFrame_Some [OF assms(4)] resolveSymbol_other_fields ..
  finally show ?thesis
    using pv by blast
qed

text \<open>
  Claim C7. Two layers whose keyframes differ at most in \<open>pivotX\<close> and \<open>pivotY\<close>, with
  keyframe indices that are pairwise different: \<open>setFrame\<close> fails on both or returns on
  both, and then the entries a, b, c and d of the two cached transforms are equal.
  The pivot is never interpolated: \<open>tx\<close> and \<open>ty\<close> are built from the resolved \<open>x\<close> and
  \<open>y\<close> and the pivot of the current keyframe.
\<close>

theorem pivot_invariant:
  assumes "list_all2 pivotVariant (flumpKeyframeDatas (flumpLayerData l1)) kfs2"
    and "distinct (map index (flumpKeyframeDatas (flumpLayerData l1)))"
    and "l2 = l1\<lparr>flumpLayerData := (flumpLayerData l1)\<lparr>flumpKeyframeDatas := kfs2\<rparr>\<rparr>"
  shows "(\<forall>e. setFrame l1 frame = Inl e \<longrightarrow> setFrame l2 frame = Inl e) \<and>
         (\<forall>l1'. setFrame l1 frame = Inr l1' \<longrightarrow>
            (\<exists>l2'. setFrame l2 frame = Inr l2' \<and>
               mtx_a (storedMtx l2') = mtx_a (storedMtx l1') \<and>
               mtx_b (storedMtx l2') = mtx_b (storedMtx l1') \<and>
               mtx_c (storedMtx l2') = mtx_c (storedMtx l1') \<and>
               mtx_d (storedMtx l2') = mtx_d (storedMtx l1'))) \<and>
         (\<forall>kf l1'.
            getKeyframeForFrame (flumpKeyframeDatas (flumpLayerData l1)) (toInt32 frame) = Some kf \<and>
            setFrame l1 frame = Inr l1' \<longrightarrow>
            mtx_tx (storedMtx l1') =
              r_x (tween kf (getKeyframeAfter (flumpKeyframeDatas (flumpLayerData l1)) kf) frame) -
              (pivotX kf * mtx_a (storedMtx l1') + pivotY kf * mtx_c (storedMtx l1')) \<and>
            mtx_ty (storedMtx l1') =
              r_y (tween kf (getKeyframeAfter (flumpKeyframeDatas (flumpLayerData l1)) kf) frame) -
              (pivotX kf * mtx_b (storedMtx l1') + pivotY kf * mtx_d (storedMtx l1')))"
proof (intro conjI allI impI)
  fix e
  assume e: "setFrame l1 frame = Inl e"
  show "setFrame l2 frame = Inl e"
  proof (cases "getKeyframeForFrame (flumpKeyframeDatas (flumpLayerData l1)) (toInt32 frame)")
    case None
    with e show ?thesis by (simp add: setFrame_None)
  next
    case (Some kf1)
    from setFrame_pivotVariant [OF assms Some] e show ?thesis by auto
  qed
next
  fix l1'
  assume r: "setFrame l1 frame = Inr l1'"
  show "\<exists>l2'. setFrame l2 frame = Inr l2' \<and>
               mtx_a (storedMtx l2') = mtx_a (storedMtx l1') \<and>
               mtx_b (storedMtx l2') = mtx_b (storedMtx l1') \<and>
               mtx_c (storedMtx l2') = mtx_c (storedMtx l1') \<and>
               mtx_d (storedMtx l2') = mtx_d (storedMtx l1')"
  proof (cases "getKeyframeForFrame (flumpKeyframeDatas (flumpLayerData l1)) (toInt32 frame)")
    case None
    from getKeyframeForFrame_pivotVariant [OF assms(1), of "toInt32 frame"] None
    have "getKeyframeForFrame (flumpKeyframeDatas (flumpLayerData l2)) (toInt32 frame) = None"
      by (cases "getKeyframeForFrame kfs2 (toInt32 frame)") (simp_all add: assms(3))
    then have "setFrame l2 frame = Inr (l2\<lparr>symbolType := Some UNKNOWN\<rparr>)"
      by (rule setFrame_None)
    moreover from r None have "l1' = l1\<lparr>symbolType := Some UNKNOWN\<rparr>"
      by (simp add: setFrame_None)
    ultimately show ?thesis
      by (simp add: assms(3))
  next
    case (Some kf1)
    from setFrame_pivotVariant [OF assms Some] r setFrame_transform(1) [OF Some r]
    show ?thesis
      by (auto simp: composeMtx_entries)
  qed
next
  fix kf l1'
  assume h: "getKeyframeForFrame (flumpKeyframeDatas (flumpLayerData l1)) (toInt32 frame) = Some kf \<and>
            setFrame l1 frame = Inr l1'"
  then have m: "storedMtx l1' =
      composeMtx (tween kf (getKeyframeAfter (flumpKeyframeDatas (flumpLayerData l1)) kf) frame)
        (pivotX kf) (pivotY kf)"
    using setFrame_transform(1) by blast
  show "mtx_tx (storedMtx l1') =
              r_x (tween kf (getKeyframeAfter (flumpKeyframeDatas (flumpLayerData l1)) kf) frame) -
              (pivotX kf * mtx_a (storedMtx l1') + pivotY kf * mtx_c (storedMtx l1'))"
    unfolding m by (rule composeMtx_entries)
  show "mtx_ty (storedMtx l1') =
              r_y (tween kf (getKeyframeAfter (flumpKeyframeDatas (flumpLayerData l1)) kf) frame) -
              (pivotX kf * mtx_b (storedMtx l1') + pivotY kf * mtx_d (storedMtx l1'))"
    unfolding m by (rule composeMtx_entries)
qed

text \<open>
  The tweened layer and its variant with the pivots (3, 4) and (5, 0), at the frame 5.
\<close>

theorem pivot_invariant_witness:
  "list_all2 pivotVariant (flumpKeyframeDatas (flumpLayerData (blankLayer tweenLayerData)))
     (flumpKeyframeDatas pivotLayerData) \<and>
   distinct (map index (flumpKeyframeDatas (flumpLayerData (blankLayer tweenLayerData)))) \<and>
   setFrame (blankLayer tweenLayerData) 5 =
     Inr ((blankLayer tweenLayerData)\<lparr>keyframeRef := Some RefNull,
        storedMtx := \<lparr>mtx_a = 1, mtx_b = 0, mtx_c = 0, mtx_d = 1, mtx_tx = 50, mtx_ty = 0\<rparr>\<rparr>) \<and>
   setFrame (blankLayer pivotLayerData) 5 =
     Inr ((blankLayer pivotLayerData)\<lparr>keyframeRef := Some RefNull,
        storedMtx := \<lparr>mtx_a = 1, mtx_b = 0, mtx_c = 0, mtx_d = 1, mtx_tx = 47, mtx_ty = - 4\<rparr>\<rparr>)"
proof -
  have h1: "list_all2 pivotVariant (flumpKeyframeDatas (flumpLayerData (blankLayer tweenLayerData)))
     (flumpKeyframeDatas pivotLayerData)"
    by (simp add: scenario_defs pivotVariant_def)
  have h2: "distinct (map index (flumpKeyframeDatas (flumpLayerData (blankLayer tweenLayerData))))"
    by (simp add: scenario_defs)
  have h3: "blankLayer pivotLayerData =
     (blankLayer tweenLayerData)\<lparr>flumpLayerData :=
        (flumpLayerData (blankLayer tweenLayerData))\<lparr>flumpKeyframeDatas :=
           flumpKeyframeDatas pivotLayerData\<rparr>\<rparr>"
    by (simp add: scenario_defs)
  have h4: "setFrame (blankLayer tweenLayerData) 5 =
     Inr ((blankLayer tweenLayerData)\<lparr>keyframeRef := Some RefNull,
        storedMtx := \<lparr>mtx_a = 1, mtx_b = 0, mtx_c = 0, mtx_d = 1, mtx_tx = 50, mtx_ty = 0\<rparr>\<rparr>)"
    by (simp add: setFrame_defs scenario_defs toInt32_small)
  have h5: "setFrame (blankLayer pivotLayerData) 5 =
     Inr ((blankLayer pivotLayerData)\<lparr>keyframeRef := Some RefNull,
        storedMtx := \<lparr>mtx_a = 1, mtx_b = 0, mtx_c = 0, mtx_d = 1, mtx_tx = 47, mtx_ty = - 4\<rparr>\<rparr>)"
    by (simp add: setFrame_defs scenario_defs toInt32_small)
  from pivot_invariant [OF h1 h2 h3, of 5] h1 h2 h4 h5 show ?thesis
    by simp
qed

subsection \<open>draw\<close>

text \<open>
  Claim C8 as stated fails on a layer without an active child: \<open>draw\<close> draws nothing and
  returns true, where the claim has false.
\<close>

theorem draw_result_counterexample:
  "activeChild (blankLayer tweenLayerData) = None \<and>
   draw Cons (blankLayer tweenLayerData) [] = Inr ([], True)"
  by (simp add: draw_def activeChild_def scenario_defs)

text \<open>
  Claim C8, amended. \<open>draw\<close> changes nothing when the layer has no active child and
  otherwise has the drawing context that the draw of the active child makes; it
  returns true in both cases.
\<close>

theorem draw_delegates:
  "(symbolType l \<noteq> Some DISPLAYOBJECT \<and> symbolType l \<noteq> Some TEXTURE \<longrightarrow>
      activeChild l = None \<and> draw childDraw l ctx = Inr (ctx, True)) \<and>
   (\<forall>s symbol. activeChild l = Some s \<and> symbols l s = Some symbol \<longrightarrow>
      draw childDraw l ctx = Inr (childDraw symbol ctx, True)) \<and>
   (\<forall>ctx' b. draw childDraw l ctx = Inr (ctx', b) \<longrightarrow> b)"
proof -
  have none: "activeChild l = None \<and> draw childDraw l ctx = Inr (ctx, True)"
    if "symbolType l \<noteq> Some DISPLAYOBJECT \<and> symbolType l \<noteq> Some TEXTURE"
    using that by (simp add: draw_def activeChild_def)
  have child: "draw childDraw l ctx = Inr (childDraw symbol ctx, True)"
    if "activeChild l = Some s \<and> symbols l s = Some symbol" for s symbol
    using that by (auto simp: draw_def activeChild_def callDraw_def split: if_splits)
  have result: b if "draw childDraw l ctx = Inr (ctx', b)" for ctx' b
    using that by (auto simp: draw_def split: if_splits sum.splits)
  from none child result show ?thesis
    by blast
qed

text \<open>
  A layer that shows the movie \<open>ball\<close>; drawing a child puts it in front of a list.
\<close>

theorem draw_delegates_witness:
  "activeChild ballLayer = Some ''ball'' \<and>
   symbols ballLayer ''ball'' = Some (Movie \<lparr>mv_name = ''ball'', mv_frame = 0\<rparr>) \<and>
   draw Cons ballLayer [] = Inr ([Movie \<lparr>mv_name = ''ball'', mv_frame = 0\<rparr>], True)"
proof -
  have h: "activeChild ballLayer = Some ''ball'' \<and>
      symbols ballLayer ''ball'' = Some (Movie \<lparr>mv_name = ''ball'', mv_frame = 0\<rparr>)"
    by (simp add: activeChild_def scenario_defs)
  from draw_delegates [of ballLayer Cons "[]"] h show ?thesis
    by blast
qed

subsection \<open>The cache of symbols\<close>

lemma symbols_has_iff:
  "symbols_has syms s \<longleftrightarrow> s \<in> dom syms \<union> set objectPrototypeNames"
  by (auto simp: symbols_has_def split: option.splits)

lemma refsCached_iff:
  "refsCached syms kfs \<longleftrightarrow> refNames kfs \<subseteq> dom syms \<union> set objectPrototypeNames"
  by (induction kfs) (auto simp: refsCached_def symbols_has_iff split: SymbolRef.splits)

lemma refCached_mem:
  "refsCached syms kfs \<Longrightarrow> k \<in> set kfs \<Longrightarrow> refCached syms (kf_ref k)"
  by (simp add: refsCached_def list_all_iff)

lemma cacheSymbols_result:
  assumes "cacheSymbols library kfs labels syms created = Inr (labels', syms', created')"
  shows "dom syms' = dom syms \<union> (refNames kfs - set objectPrototypeNames) \<and>
         (\<exists>new. created' = new @ created \<and> distinct new \<and>
            set new = refNames kfs - dom syms - set objectPrototypeNames) \<and>
         (\<forall>s\<in>dom syms. syms' s = syms s) \<and>
         (\<forall>s\<in>refNames kfs - dom syms - set objectPrototypeNames. syms' s = library s)"
  using assms
proof (induction kfs arbitrary: labels syms created)
  case Nil
  then show ?case by simp
next
  case (Cons k kfs)
  let ?labels = "(if labelled (kf_label k)
             then labels(the (kf_label k) \<mapsto>
                    \<lparr>lbl_label = the (kf_label k), lbl_index = index k,
                     lbl_duration = duration k\<rparr>)
             else labels)"
  show ?case
  proof (cases "kf_ref k")
    case RefNull
    with Cons.prems have "cacheSymbols library kfs ?labels syms created = Inr (labels', syms', created')"
      by (simp add: Let_def)
    from Cons.IH [OF this] show ?thesis
      by (simp add: RefNull)
  next
    case RefMinusOne
    with Cons.prems have "cacheSymbols library kfs ?labels syms created = Inr (labels', syms', created')"
      by (simp add: Let_def)
    from Cons.IH [OF this] show ?thesis
      by (simp add: RefMinusOne)
  next
    case (RefName s)
    show ?thesis
    proof (cases "symbols_has syms s")
      case True
      with Cons.prems RefName
      have rec: "cacheSymbols library kfs ?labels syms created = Inr (labels', syms', created')"
        by (simp add: Let_def)
      from True have here: "s \<in> dom syms \<union> set objectPrototypeNames"
        by (simp add: symbols_has_iff)
      then have 1: "refNames (k # kfs) - set objectPrototypeNames \<union> dom syms =
                    refNames kfs - set objectPrototypeNames \<union> dom syms"
        by (auto simp: RefName)
      from here have 2: "refNames (k # kfs) - dom syms - set objectPrototypeNames =
                    refNames kfs - dom syms - set objectPrototypeNames"
        by (auto simp: RefName)
      from Cons.IH [OF rec] show ?thesis
        unfolding 2 using 1 by (simp add: Un_commute)
    next
      case False
      then have sn: "s \<notin> dom syms" and si: "s \<notin> set objectPrototypeNames"
        by (simp_all add: symbols_has_iff)
      from False Cons.prems RefName obtain symbol where lib: "library s = Some symbol"
        and rec: "cacheSymbols library kfs ?labels (syms(s \<mapsto> symbol)) (s # created) =
                    Inr (labels', syms', created')"
        by (auto simp: Let_def createSymbol_def split: option.splits)
      from Cons.IH [OF rec] obtain new where
        d: "dom syms' = dom (syms(s \<mapsto> symbol)) \<union> (refNames kfs - set objectPrototypeNames)"
        and n: "created' = new @ s # created" "distinct new"
          "set new = refNames kfs - dom (syms(s \<mapsto> symbol)) - set objectPrototypeNames"
        and old: "\<forall>t\<in>dom (syms(s \<mapsto> symbol)). syms' t = (syms(s \<mapsto> symbol)) t"
        and fresh: "\<forall>t\<in>refNames kfs - dom (syms(s \<mapsto> symbol)) - set objectPrototypeNames.
                      syms' t = library t"
        by blast
      have 1: "dom syms' = dom syms \<union> (refNames (k # kfs) - set objectPrototypeNames)"
        using d si by (auto simp: RefName)
      have 2: "created' = (new @ [s]) @ created \<and> distinct (new @ [s]) \<and>
               set (new @ [s]) = refNames (k # kfs) - dom syms - set objectPrototypeNames"
        using n sn si by (auto simp: RefName)
      have 3: "\<forall>t\<in>dom syms. syms' t = syms t"
      proof
        fix t
        assume t: "t \<in> dom syms"
        with sn have ts: "t \<noteq> s" by blast
        from t have "t \<in> dom (syms(s \<mapsto> symbol))" by simp
        with old have "syms' t = (syms(s \<mapsto> symbol)) t" by (rule bspec)
        with ts show "syms' t = syms t" by simp
      qed
      have 4: "\<forall>t\<in>refNames (k # kfs) - dom syms - set objectPrototypeNames. syms' t = library t"
      proof
        fix t
        assume t: "t \<in> refNames (k # kfs) - dom syms - set objectPrototypeNames"
        show "syms' t = library t"
        proof (cases "t = s")
          case True
          then show ?thesis using old lib by simp
        next
          case False
          with t have "t \<in> refNames kfs - dom (syms(s \<mapsto> symbol)) - set objectPrototypeNames"
            by (auto simp: RefName)
          then show ?thesis using fresh by blast
        qed
      qed
      from 1 2 3 4 show ?thesis by blast
    qed
  qed
qed

lemma cacheSymbols_succeeds:
  assumes "refsKnown library kfs"
  shows "\<exists>res. cacheSymbols library kfs labels syms created = Inr res"
  using assms
proof (induction kfs arbitrary: labels syms created)
  case Nil
  then show ?case by simp
next
  case (Cons k kfs)
  then have rest: "refsKnown library kfs" and here: "refKnown library (kf_ref k)"
    by (simp_all add: refsKnown_def)
  show ?case
  proof (cases "kf_ref k")
    case RefNull
    then show ?thesis using Cons.IH [OF rest] by (simp add: Let_def)
  next
    case RefMinusOne
    then show ?thesis using Cons.IH [OF rest] by (simp add: Let_def)
  next
    case (RefName s)
    with here obtain symbol where "library s = Some symbol"
      by auto
    then show ?thesis
      using Cons.IH [OF rest] RefName by (simp add: Let_def createSymbol_def)
  qed
qed

lemma resolveSymbol_succeeds:
  assumes "refCached (symbols l) r"
  shows "\<exists>l'. resolveSymbol l r = Inr l'"
  using assms
  by (cases r)
    (auto simp: resolveSymbol_def symbols_get_def symbols_has_def Let_def
      split: option.splits Member.splits)

lemma setFrame_succeeds:
  assumes "refsCached (symbols l) (flumpKeyframeDatas (flumpLayerData l))"
  shows "\<exists>l'. setFrame l frame = Inr l' \<and>
           refsCached (symbols l') (flumpKeyframeDatas (flumpLayerData l'))"
proof -
  have "\<exists>l'. setFrame l frame = Inr l'"
  proof (cases "getKeyframeForFrame (flumpKeyframeDatas (flumpLayerData l)) (toInt32 frame)")
    case None
    then show ?thesis by (simp add: setFrame_None)
  next
    case (Some kf)
    from refCached_mem [OF assms getKeyframeForFrame_mem [OF Some]]
    have "refCached (symbols l) (kf_ref kf)" .
    then show ?thesis
      unfolding setFrame_Some [OF Some] by (intro resolveSymbol_succeeds) simp
  qed
  then obtain l' where l': "setFrame l frame = Inr l'" ..
  from setFrame_layerData [OF l'] assms
  have "refsCached (symbols l') (flumpKeyframeDatas (flumpLayerData l'))"
    by (simp add: refsCached_iff)
  with l' show ?thesis by blast
qed

lemma setFrames_succeeds:
  assumes "refsCached (symbols l) (flumpKeyframeDatas (flumpLayerData l))"
  shows "\<exists>l'. setFrames l frames = Inr l' \<and>
           refsCached (symbols l') (flumpKeyframeDatas (flumpLayerData l'))"
  using assms
proof (induction frames arbitrary: l)
  case Nil
  then show ?case by simp
next
  case (Cons frame frames)
  from setFrame_succeeds [OF Cons.prems] obtain l1 where
    "setFrame l frame = Inr l1" "refsCached (symbols l1) (flumpKeyframeDatas (flumpLayerData l1))"
    by blast
  then show ?case
    using Cons.IH [of l1] by simp
qed

lemma newFlumpMovieLayer_result:
  assumes "newFlumpMovieLayer library labels ld alpha0 visible0 = Inr (l, labels', created)"
  shows "flumpLayerData l = ld"
    and "dom (symbols l) = refNames (flumpKeyframeDatas ld) - set objectPrototypeNames"
    and "distinct created"
    and "set created = refNames (flumpKeyframeDatas ld) - set objectPrototypeNames"
proof -
  let ?l0 = "\<lambda>syms. \<lparr>layer_name = ld_name ld, flumpLayerData = ld, symbolType = Some UNKNOWN,
                   symbolMovie = None, symbolTexture = None, keyframeRef = None,
                   symbols = syms,
                   storedMtx = \<lparr>mtx_a = 1, mtx_b = 0, mtx_c = 0, mtx_d = 1,
                                mtx_tx = 0, mtx_ty = 0\<rparr>,
                   alpha = alpha0, visible = visible0\<rparr>"
  from assms obtain syms cr where
    c: "cacheSymbols library (flumpKeyframeDatas ld) labels Map.empty [] = Inr (labels', syms, cr)"
    and s: "setFrame (?l0 syms) 0 = Inr l" and cr: "created = rev cr"
    by (auto simp: newFlumpMovieLayer_def split: sum.splits prod.splits)
  have l0: "flumpLayerData (?l0 syms) = ld" "symbols (?l0 syms) = syms"
    by simp_all
  from cacheSymbols_result [OF c]
  have "dom syms = refNames (flumpKeyframeDatas ld) - set objectPrototypeNames"
    and "distinct cr"
    and "set cr = refNames (flumpKeyframeDatas ld) - set objectPrototypeNames"
    by auto
  with setFrame_layerData [OF s] l0 cr
  show "flumpLayerData l = ld"
    and "dom (symbols l) = refNames (flumpKeyframeDatas ld) - set objectPrototypeNames"
    and "distinct created"
    and "set created = refNames (flumpKeyframeDatas ld) - set objectPrototypeNames"
    by simp_all
qed

lemma newFlumpMovieLayer_succeeds:
  assumes "refsKnown library (flumpKeyframeDatas ld)"
  shows "\<exists>l labels' created.
           newFlumpMovieLayer library labels ld alpha0 visible0 = Inr (l, labels', created)"
proof -
  from cacheSymbols_succeeds [OF assms] obtain labels' syms cr where
    c: "cacheSymbols library (flumpKeyframeDatas ld) labels Map.empty [] = Inr (labels', syms, cr)"
    by (metis prod_cases3)
  let ?l0 = "\<lparr>layer_name = ld_name ld, flumpLayerData = ld, symbolType = Some UNKNOWN,
                   symbolMovie = None, symbolTexture = None, keyframeRef = None,
                   symbols = syms,
                   storedMtx = \<lparr>mtx_a = 1, mtx_b = 0, mtx_c = 0, mtx_d = 1,
                                mtx_tx = 0, mtx_ty = 0\<rparr>,
                   alpha = alpha0, visible = visible0\<rparr>"
  from cacheSymbols_result [OF c]
  have "refsCached (symbols ?l0) (flumpKeyframeDatas (flumpLayerData ?l0))"
    by (auto simp: refsCached_iff)
  from setFrame_succeeds [OF this] obtain l where "setFrame ?l0 0 = Inr l"
    by blast
  with c show ?thesis
    by (simp add: newFlumpMovieLayer_def)
qed

lemma ball_construction:
  "newFlumpMovieLayer ballLibrary Map.empty ballLayerData 1 True =
     Inr (ballLayer, Map.empty, [''ball''])"
  by (simp add: newFlumpMovieLayer_def setFrame_defs scenario_defs toInt32_small
      createSymbol_def symbols_has_def)

lemma getKeyframeForFrame_None_iff: "getKeyframeForFrame kfs n = None \<longleftrightarrow> kfs = []"
  by (induction kfs n rule: getKeyframeForFrame.induct) auto

subsection \<open>Totality\<close>

text \<open>
  Claim C9. When the library holds every symbol that the keyframes of a layer name, the
  constructor returns a layer, and on this layer every sequence of calls of \<open>setFrame\<close>
  returns, whatever the frames: \<open>setFrame\<close> never raises. When the lookup returns no
  keyframe, which is the case of a layer without keyframes, the call returns a layer
  that has no active child.
\<close>

theorem setFrame_never_fails:
  assumes "refsKnown library (flumpKeyframeDatas ld)"
  shows "\<exists>l labels' created.
           newFlumpMovieLayer library labels ld alpha0 visible0 = Inr (l, labels', created) \<and>
           (\<forall>frames. \<exists>l'. setFrames l frames = Inr l') \<and>
           (\<forall>frames frame l'.
              setFrames l frames = Inr l' \<and>
              getKeyframeForFrame (flumpKeyframeDatas (flumpLayerData l')) (toInt32 frame) = None \<longrightarrow>
              flumpKeyframeDatas ld = [] \<and>
              (\<exists>l''. setFrame l' frame = Inr l'' \<and> symbolType l'' = Some UNKNOWN \<and>
                     activeChild l'' = None))"
proof -
  from newFlumpMovieLayer_succeeds [OF assms] obtain l labels' created where
    n: "newFlumpMovieLayer library labels ld alpha0 visible0 = Inr (l, labels', created)"
    by blast
  note res = newFlumpMovieLayer_result [OF n]
  have inv: "refsCached (symbols l) (flumpKeyframeDatas (flumpLayerData l))"
    using res(1,2) by (auto simp: refsCached_iff)
  have all: "\<forall>frames. \<exists>l'. setFrames l frames = Inr l'"
    using setFrames_succeeds [OF inv] by blast
  have keep: "flumpLayerData l' = ld" if "setFrames l frames = Inr l'" for frames l'
    using that res(1)
  proof (induction frames arbitrary: l)
    case Nil
    then show ?case by simp
  next
    case (Cons frame frames)
    then show ?case
      by (auto split: sum.splits dest: setFrame_layerData)
  qed
  have none: "flumpKeyframeDatas ld = [] \<and>
              (\<exists>l''. setFrame l' frame = Inr l'' \<and> symbolType l'' = Some UNKNOWN \<and>
                     activeChild l'' = None)"
    if "setFrames l frames = Inr l'"
      and "getKeyframeForFrame (flumpKeyframeDatas (flumpLayerData l')) (toInt32 frame) = None"
    for frames frame l'
    using that keep [OF that(1)]
    by (simp add: setFrame_None activeChild_def getKeyframeForFrame_None_iff)
  from n all none show ?thesis by blast
qed

text \<open>The layer of the symbol scenario, with the frames 2 and 5.\<close>

theorem setFrame_never_fails_witness:
  "refsKnown ballLibrary (flumpKeyframeDatas ballLayerData) \<and>
   newFlumpMovieLayer ballLibrary Map.empty ballLayerData 1 True =
     Inr (ballLayer, Map.empty, [''ball'']) \<and>
   (\<exists>l'. setFrames ballLayer [2, 5] = Inr l')"
proof -
  have h: "refsKnown ballLibrary (flumpKeyframeDatas ballLayerData)"
    by (simp add: refsKnown_def scenario_defs)
  from setFrame_never_fails [OF h, of Map.empty 1 True] obtain l labels' created where
    n: "newFlumpMovieLayer ballLibrary Map.empty ballLayerData 1 True = Inr (l, labels', created)"
    and a: "\<forall>frames. \<exists>l'. setFrames l frames = Inr l'"
    by blast
  from n have "l = ballLayer"
    by (simp add: ball_construction)
  with a have "\<exists>l'. setFrames ballLayer [2, 5] = Inr l'"
    by blast
  with h ball_construction show ?thesis
    by blast
qed

subsection \<open>Symbols\<close>

lemma setFrame_switches_symbol:
  assumes "getKeyframeForFrame (flumpKeyframeDatas (flumpLayerData l)) (toInt32 frame) = Some kf"
    and "setFrame l frame = Inr l'"
    and "kf_ref kf = RefName s" and "keyframeRef l \<noteq> Some (RefName s)"
    and "symbols l s = Some symbol"
  shows "keyframeRef l' = Some (RefName s) \<and> symbolType l' = Some (symbol_type symbol) \<and>
         activeChild l' = Some s \<and> symbols l' = (symbols l)(s \<mapsto> symbol_reset symbol)"
proof -
  let ?v = "tween kf (getKeyframeAfter (flumpKeyframeDatas (flumpLayerData l)) kf) frame"
  let ?l0 = "l\<lparr>storedMtx := composeMtx ?v (pivotX kf) (pivotY kf),
                alpha := r_alpha ?v, visible := kf_visible kf\<rparr>"
  from assms(2) have rs: "resolveSymbol ?l0 (kf_ref kf) = Inr l'"
    by (simp add: setFrame_Some [OF assms(1)])
  show ?thesis
  proof (cases symbol)
    case (Movie m)
    with rs assms(3,4,5) show ?thesis
      by (auto simp: resolveSymbol_def symbols_get_def activeChild_def Let_def)
  next
    case (Texture t)
    with rs assms(3,4,5) show ?thesis
      by (auto simp: resolveSymbol_def symbols_get_def activeChild_def Let_def)
  qed
qed

lemma setFrame_inherited_name:
  assumes "getKeyframeForFrame (flumpKeyframeDatas (flumpLayerData l)) (toInt32 frame) = Some kf"
    and "setFrame l frame = Inr l'"
    and "kf_ref kf = RefName s" and "keyframeRef l \<noteq> Some (RefName s)"
    and "symbols l s = None" and "s \<in> set objectPrototypeNames"
  shows "keyframeRef l' = Some (RefName s) \<and> symbolType l' = None \<and> activeChild l' = None \<and>
         symbols l' = symbols l"
proof -
  let ?v = "tween kf (getKeyframeAfter (flumpKeyframeDatas (flumpLayerData l)) kf) frame"
  let ?l0 = "l\<lparr>storedMtx := composeMtx ?v (pivotX kf) (pivotY kf),
                alpha := r_alpha ?v, visible := kf_visible kf\<rparr>"
  from assms(2) have rs: "resolveSymbol ?l0 (kf_ref kf) = Inr l'"
    by (simp add: setFrame_Some [OF assms(1)])
  with assms(3,4,5,6) show ?thesis
    by (auto simp: resolveSymbol_def symbols_get_def activeChild_def Let_def)
qed

lemma setFrame_clears_symbol:
  assumes "getKeyframeForFrame (flumpKeyframeDatas (flumpLayerData l)) (toInt32 frame) = Some kf"
    and "setFrame l frame = Inr l'"
    and "kf_ref kf = RefNull \<or> kf_ref kf = RefMinusOne"
  shows "keyframeRef l' = Some RefNull \<and> symbolType l' = Some UNKNOWN \<and> activeChild l' = None \<and>
         symbols l' = symbols l"
proof -
  let ?v = "tween kf (getKeyframeAfter (flumpKeyframeDatas (flumpLayerData l)) kf) frame"
  let ?l0 = "l\<lparr>storedMtx := composeMtx ?v (pivotX kf) (pivotY kf),
                alpha := r_alpha ?v, visible := kf_visible kf\<rparr>"
  from assms(2) have rs: "resolveSymbol ?l0 (kf_ref kf) = Inr l'"
    by (simp add: setFrame_Some [OF assms(1)])
  with assms(3) show ?thesis
    by (auto simp: resolveSymbol_def activeChild_def)
qed

text \<open>
  Claim C5. With the ref \<open>ball\<close> at the index 0 and \<open>null\<close> at the index 5, the constructor
  creates the symbol \<open>ball\<close> once, resets the movie to its frame 0 and makes it the
  active child; the frame 2 leaves it active and the frame 5 leaves no active child, as
  the claim says. With a symbol that is called \<open>toString\<close> in place of \<open>ball\<close>, a name
  that a plain object inherits, the code does not do what the claim says: the
  constructor creates no symbol although the library holds one, and on the frame 2,
  also when the active ref is another one, \<open>setFrame\<close> records the ref and an undefined
  kind, resets nothing and leaves the layer without an active child.
\<close>

theorem symbol_resolution_inherited_name:
  "newFlumpMovieLayer ballLibrary Map.empty ballLayerData 1 True =
     Inr (ballLayer, Map.empty, [''ball'']) \<and>
   symbols ballLayer ''ball'' = Some (Movie \<lparr>mv_name = ''ball'', mv_frame = 0\<rparr>) \<and>
   setFrame ballLayer 2 = Inr ballLayer \<and>
   activeChild ballLayer = Some ''ball'' \<and> symbolType ballLayer = Some DISPLAYOBJECT \<and>
   setFrame ballLayer 5 =
     Inr (ballLayer\<lparr>keyframeRef := Some RefNull, symbolType := Some UNKNOWN\<rparr>) \<and>
   activeChild (ballLayer\<lparr>keyframeRef := Some RefNull, symbolType := Some UNKNOWN\<rparr>) = None \<and>
   refsKnown toStringLibrary (flumpKeyframeDatas toStringLayerData) \<and>
   newFlumpMovieLayer toStringLibrary Map.empty toStringLayerData 1 True =
     Inr (toStringLayer, Map.empty, []) \<and>
   symbols toStringLayer ''toString'' = None \<and>
   getKeyframeForFrame (flumpKeyframeDatas (flumpLayerData toStringLayer)) (toInt32 2) =
     Some toStringFrom \<and>
   kf_ref toStringFrom = RefName ''toString'' \<and>
   setFrame toStringLayer 2 = Inr toStringLayer \<and>
   setFrame (toStringLayer\<lparr>keyframeRef := Some RefNull, symbolType := Some UNKNOWN\<rparr>) 2 =
     Inr toStringLayer \<and>
   symbolType toStringLayer = None \<and> activeChild toStringLayer = None"
proof -
  have ball: "symbols ballLayer ''ball'' = Some (Movie \<lparr>mv_name = ''ball'', mv_frame = 0\<rparr>) \<and>
      setFrame ballLayer 2 = Inr ballLayer \<and>
      activeChild ballLayer = Some ''ball'' \<and> symbolType ballLayer = Some DISPLAYOBJECT \<and>
      setFrame ballLayer 5 =
        Inr (ballLayer\<lparr>keyframeRef := Some RefNull, symbolType := Some UNKNOWN\<rparr>) \<and>
      activeChild (ballLayer\<lparr>keyframeRef := Some RefNull, symbolType := Some UNKNOWN\<rparr>) = None"
    by (simp add: setFrame_defs scenario_defs toInt32_small activeChild_def)
  have known: "refsKnown toStringLibrary (flumpKeyframeDatas toStringLayerData)"
    by (simp add: refsKnown_def scenario_defs)
  have made: "newFlumpMovieLayer toStringLibrary Map.empty toStringLayerData 1 True =
      Inr (toStringLayer, Map.empty, [])"
    by (simp add: newFlumpMovieLayer_def setFrame_defs scenario_defs toInt32_small
        createSymbol_def symbols_has_def)
  have frame: "symbols toStringLayer ''toString'' = None \<and>
      getKeyframeForFrame (flumpKeyframeDatas (flumpLayerData toStringLayer)) (toInt32 2) =
        Some toStringFrom \<and>
      kf_ref toStringFrom = RefName ''toString'' \<and>
      setFrame toStringLayer 2 = Inr toStringLayer \<and>
      setFrame (toStringLayer\<lparr>keyframeRef := Some RefNull, symbolType := Some UNKNOWN\<rparr>) 2 =
        Inr toStringLayer \<and>
      symbolType toStringLayer = None \<and> activeChild toStringLayer = None"
    by (simp add: setFrame_defs scenario_defs toInt32_small activeChild_def)
  from ball_construction ball known made frame show ?thesis
    by simp
qed

end
